theory Spec2Isabelle
  imports Main "HOL-Library.Char_ord" "HOL-Library.Sublist"
begin

section \<open>Strings\<close>

text \<open>
  A Go string is a sequence of bytes; it is modelled as \<^typ>\<open>string\<close>. The adapters use
  three functions of package \<^verbatim>\<open>strings\<close>. They are modelled on their ASCII path:
  \<^verbatim>\<open>strings.ToLower\<close> adds \<^verbatim>\<open>'a' - 'A'\<close> to each byte between \<^verbatim>\<open>'A'\<close> and \<^verbatim>\<open>'Z'\<close> and
  leaves every other byte as it is (on a string holding a byte above 127 Go maps whole
  runes, which the model does not follow); \<^verbatim>\<open>strings.Contains\<close> searches a contiguous
  occurrence; \<^verbatim>\<open>strings.EqualFold\<close> compares under ASCII case folding.
\<close>

definition lower_char :: "char \<Rightarrow> char" where
  "lower_char c =
     (if CHR ''A'' \<le> c \<and> c \<le> CHR ''Z'' then char_of (of_char c + (32::nat)) else c)"

definition ToLower :: "string \<Rightarrow> string" where
  "ToLower s = map lower_char s"

fun Contains :: "string \<Rightarrow> string \<Rightarrow> bool" where
  "Contains [] substr = (substr = [])"
| "Contains (c # s) substr = (prefix substr (c # s) \<or> Contains s substr)"

definition EqualFold :: "string \<Rightarrow> string \<Rightarrow> bool" where
  "EqualFold s t = (ToLower s = ToLower t)"

section \<open>Deployment: status normalisation and environment inference\<close>

text \<open>\<^verbatim>\<open>deployment/provider.go\<close>, \<^verbatim>\<open>normalizeStatus\<close>: a switch on the lower-cased status
  and, under \<^verbatim>\<open>completed\<close>, a switch on the lower-cased conclusion.\<close>

definition deployment_normalizeStatus :: "string \<Rightarrow> string \<Rightarrow> string" where
  "deployment_normalizeStatus status conclusion =
     (let s = ToLower status in
      if s = ''queued'' then ''queued''
      else if s = ''in_progress'' then ''running''
      else if s = ''completed'' then
        (let c = ToLower conclusion in
         if c = ''success'' then ''success''
         else if c = ''failure'' then ''failed''
         else if c = ''cancelled'' then ''cancelled''
         else if c = ''skipped'' then ''cancelled''
         else if c = ''timed_out'' then ''failed''
         else if c = ''action_required'' then ''failed''
         else ''failed'')
      else status)"

text \<open>The table of the specification, row by row: a cell is a literal or stands for
  "anything else" (also written as a dash); the result column is a canonical status or the
  passthrough of the raw status. A lookup takes the first row that matches.\<close>

datatype cell = Exactly string | Otherwise

definition status_table :: "(cell \<times> cell \<times> string option) list" where
  "status_table =
     [(Exactly ''queued'', Otherwise, Some ''queued''),
      (Exactly ''in_progress'', Otherwise, Some ''running''),
      (Exactly ''completed'', Exactly ''success'', Some ''success''),
      (Exactly ''completed'', Exactly ''failure'', Some ''failed''),
      (Exactly ''completed'', Exactly ''cancelled'', Some ''cancelled''),
      (Exactly ''completed'', Exactly ''skipped'', Some ''cancelled''),
      (Exactly ''completed'', Exactly ''timed_out'', Some ''failed''),
      (Exactly ''completed'', Exactly ''action_required'', Some ''failed''),
      (Exactly ''completed'', Otherwise, Some ''failed''),
      (Otherwise, Otherwise, None)]"

fun cell_matches :: "cell \<Rightarrow> string \<Rightarrow> bool" where
  "cell_matches (Exactly k) s = (ToLower s = k)"
| "cell_matches Otherwise s = True"

fun table_lookup :: "(cell \<times> cell \<times> string option) list \<Rightarrow> string \<Rightarrow> string \<Rightarrow> string" where
  "table_lookup [] status conclusion = status"
| "table_lookup ((st, co, out) # rows) status conclusion =
     (if cell_matches st status \<and> cell_matches co conclusion
      then (case out of Some canonical \<Rightarrow> canonical | None \<Rightarrow> status)
      else table_lookup rows status conclusion)"

text \<open>\<^verbatim>\<open>extractEnvironment\<close>: two loops over the pattern list, each returning at the first
  pattern contained in the lower-cased text, then a switch on the lower-cased branch.
  \<open>firstMatch\<close> is one such loop; \<open>None\<close> is the loop falling through.\<close>

definition envPatterns :: "string list" where
  "envPatterns =
     [''prod'', ''production'', ''staging'', ''stage'', ''dev'', ''development'', ''test'', ''testing'']"

fun firstMatch :: "string \<Rightarrow> string list \<Rightarrow> string option" where
  "firstMatch text [] = None"
| "firstMatch text (env # envs) = (if Contains text env then Some env else firstMatch text envs)"

definition extractEnvironment :: "string \<Rightarrow> string \<Rightarrow> string" where
  "extractEnvironment workflowName branch =
     (let workflowLower = ToLower workflowName in
      case firstMatch workflowLower envPatterns of
        Some env \<Rightarrow> env
      | None \<Rightarrow>
         (let branchLower = ToLower branch in
          case firstMatch branchLower envPatterns of
            Some env \<Rightarrow> env
          | None \<Rightarrow>
             (if branchLower = ''main'' \<or> branchLower = ''master'' then ''production''
              else if branchLower = ''develop'' \<or> branchLower = ''dev'' then ''development''
              else ''development'')))"

text \<open>The algorithm in the words of the specification: the first pattern of the ordered
  list that occurs in the name, ignoring case; else the first that occurs in the branch;
  else the exact-match fallback on the branch; else \<^verbatim>\<open>development\<close>.\<close>

definition occurs_in :: "string \<Rightarrow> string \<Rightarrow> bool" where
  "occurs_in pattern text = sublist pattern (ToLower text)"

definition infer_environment :: "string \<Rightarrow> string \<Rightarrow> string" where
  "infer_environment name branch =
     (case find (\<lambda>p. occurs_in p name) envPatterns of
        Some p \<Rightarrow> p
      | None \<Rightarrow>
         (case find (\<lambda>p. occurs_in p branch) envPatterns of
            Some p \<Rightarrow> p
          | None \<Rightarrow>
             (if ToLower branch \<in> {''main'', ''master''} then ''production''
              else if ToLower branch \<in> {''develop'', ''dev''} then ''development''
              else ''development'')))"

section \<open>Ticket and team: status and role normalisation\<close>

text \<open>\<^verbatim>\<open>ticket/provider.go\<close>, \<^verbatim>\<open>normalizeStatus\<close>.\<close>

definition ticket_normalizeStatus :: "string \<Rightarrow> string" where
  "ticket_normalizeStatus state =
     (let s = ToLower state in
      if s = ''open'' then ''open''
      else if s = ''closed'' then ''closed''
      else state)"

text \<open>\<^verbatim>\<open>team/provider.go\<close>, \<^verbatim>\<open>normalizeRole\<close>.\<close>

definition normalizeRole :: "string \<Rightarrow> string" where
  "normalizeRole role =
     (let r = ToLower role in
      if r = ''maintainer'' then ''owner''
      else if r = ''member'' then ''member''
      else ''member'')"

section \<open>Numbers as text\<close>

text \<open>\<^verbatim>\<open>strconv.FormatInt\<close> and \<^verbatim>\<open>strconv.Itoa\<close> in base 10, and \<^verbatim>\<open>strconv.ParseInt\<close> in
  base 10 with 64 bits (\<^verbatim>\<open>strconv.Atoi\<close> is the same function where \<^verbatim>\<open>int\<close> has 64 bits):
  an optional sign, then one or more decimal digits, and a value that fits \<^verbatim>\<open>int64\<close>;
  \<open>None\<close> is the returned error.\<close>

definition digit_char :: "nat \<Rightarrow> char" where
  "digit_char d = char_of (48 + d)"

function FormatUint :: "nat \<Rightarrow> string" where
  "FormatUint n = (if n < 10 then [digit_char n] else FormatUint (n div 10) @ [digit_char (n mod 10)])"
  by pat_completeness auto
termination
  by (relation "measure id") auto

definition FormatInt :: "int \<Rightarrow> string" where
  "FormatInt i = (if i < 0 then CHR ''-'' # FormatUint (nat (- i)) else FormatUint (nat i))"

definition digit_val :: "char \<Rightarrow> nat option" where
  "digit_val c = (if CHR ''0'' \<le> c \<and> c \<le> CHR ''9'' then Some (of_char c - 48) else None)"

fun parse_digits :: "nat \<Rightarrow> string \<Rightarrow> nat option" where
  "parse_digits acc [] = Some acc"
| "parse_digits acc (c # cs) =
     (case digit_val c of None \<Rightarrow> None | Some d \<Rightarrow> parse_digits (acc * 10 + d) cs)"

definition ParseInt :: "string \<Rightarrow> int option" where
  "ParseInt s =
     (case s of
        [] \<Rightarrow> None
      | c # cs \<Rightarrow>
         (let neg = (c = CHR ''-'');
              ds = (if c = CHR ''+'' \<or> c = CHR ''-'' then cs else s)
          in if ds = [] then None
             else (case parse_digits 0 ds of
                     None \<Rightarrow> None
                   | Some n \<Rightarrow>
                      if neg then (if n \<le> 2 ^ 63 then Some (- int n) else None)
                      else (if n < 2 ^ 63 then Some (int n) else None))))"

section \<open>Dynamic values, errors and configuration\<close>

text \<open>A value of Go's \<^verbatim>\<open>any\<close>, as far as the adapters look at it: they only assert
  \<^verbatim>\<open>string\<close> and \<^verbatim>\<open>[]string\<close>; every other dynamic type, and \<^verbatim>\<open>nil\<close>, fails both
  assertions. A lookup of a missing key gives \<^verbatim>\<open>nil\<close>, so the assertions take the result
  of the lookup.\<close>

datatype any = AString string | AStrings "string list" | AInt int | ABool bool | ANil

fun asString :: "any option \<Rightarrow> string option" where
  "asString (Some (AString s)) = Some s"
| "asString _ = None"

fun asStrings :: "any option \<Rightarrow> string list option" where
  "asStrings (Some (AStrings ss)) = Some ss"
| "asStrings _ = None"

text \<open>Go error values: a plain error carrying its text (\<^verbatim>\<open>fmt.Errorf\<close>, a JSON decoding
  error), or the orchestrator's error with a code and a message. The upstream client
  answers with an \<^verbatim>\<open>ErrorResponse\<close> (HTTP status code and message) or with some other
  error.\<close>

datatype error = Errorf string | OpsOrchError string string

datatype gh_error = ErrorResponse int string | OtherError string

text \<open>The client handle built by \<^verbatim>\<open>github.NewTokenClient\<close>: it holds the token.\<close>

datatype Client = NewTokenClient string

record ticket_Config =
  ticket_Token :: string
  ticket_Owner :: string
  ticket_Repo :: string
  ticket_DefaultState :: string

record ticket_Provider =
  ticket_client :: Client
  ticket_config :: ticket_Config

record deployment_Config =
  deployment_Token :: string
  deployment_Owner :: string
  deployment_Repo :: string

record deployment_Provider =
  deployment_client :: Client
  deployment_config :: deployment_Config

record team_Config =
  team_Token :: string
  team_Organization :: string

record team_Provider =
  team_client :: Client
  team_config :: team_Config

text \<open>\<^verbatim>\<open>ticket.New\<close>, \<^verbatim>\<open>deployment.New\<close> and \<^verbatim>\<open>team.New\<close>. None of them takes the
  upstream state: the constructors make no call to the remote API.\<close>

definition ticket_New :: "(string \<rightharpoonup> any) \<Rightarrow> error + ticket_Provider" where
  "ticket_New cfg =
     (case asString (cfg ''token'') of
        None \<Rightarrow> Inl (Errorf ''token is required'')
      | Some token \<Rightarrow>
         (case asString (cfg ''owner'') of
            None \<Rightarrow> Inl (Errorf ''owner is required'')
          | Some owner \<Rightarrow>
             (case asString (cfg ''repo'') of
                None \<Rightarrow> Inl (Errorf ''repo is required'')
              | Some repo \<Rightarrow>
                 (let defaultState =
                        (case asString (cfg ''defaultState'') of
                           Some state \<Rightarrow> state
                         | None \<Rightarrow> ''open'')
                  in Inr \<lparr>ticket_client = NewTokenClient token,
                          ticket_config = \<lparr>ticket_Token = token, ticket_Owner = owner,
                            ticket_Repo = repo, ticket_DefaultState = defaultState\<rparr>\<rparr>))))"

definition deployment_New :: "(string \<rightharpoonup> any) \<Rightarrow> error + deployment_Provider" where
  "deployment_New cfg =
     (case asString (cfg ''token'') of
        None \<Rightarrow> Inl (Errorf ''token is required'')
      | Some token \<Rightarrow>
         (case asString (cfg ''owner'') of
            None \<Rightarrow> Inl (Errorf ''owner is required'')
          | Some owner \<Rightarrow>
             (case asString (cfg ''repo'') of
                None \<Rightarrow> Inl (Errorf ''repo is required'')
              | Some repo \<Rightarrow>
                 Inr \<lparr>deployment_client = NewTokenClient token,
                      deployment_config = \<lparr>deployment_Token = token, deployment_Owner = owner,
                        deployment_Repo = repo\<rparr>\<rparr>)))"

definition team_New :: "(string \<rightharpoonup> any) \<Rightarrow> error + team_Provider" where
  "team_New cfg =
     (case asString (cfg ''token'') of
        None \<Rightarrow> Inl (Errorf ''token is required'')
      | Some token \<Rightarrow>
         (case asString (cfg ''organization'') of
            None \<Rightarrow> Inl (Errorf ''organization is required'')
          | Some org \<Rightarrow>
             Inr \<lparr>team_client = NewTokenClient token,
                  team_config = \<lparr>team_Token = token, team_Organization = org\<rparr>\<rparr>))"

text \<open>The validation in the words of the specification: the required keys are looked at
  in a fixed order, and the first one that is missing or not a string is the one
  reported.\<close>

definition first_missing :: "string list \<Rightarrow> (string \<rightharpoonup> any) \<Rightarrow> string option" where
  "first_missing keys cfg = find (\<lambda>k. asString (cfg k) = None) keys"

definition string_at :: "(string \<rightharpoonup> any) \<Rightarrow> string \<Rightarrow> string" where
  "string_at cfg k = (case asString (cfg k) of Some s \<Rightarrow> s | None \<Rightarrow> [])"

text \<open>\<^verbatim>\<open>wrapError\<close>, once per package: the three differ in the text of the messages for
  403 and 404 only.\<close>

definition wrapError :: "string \<Rightarrow> string \<Rightarrow> gh_error \<Rightarrow> error" where
  "wrapError forbidden notFound err =
     (case err of
        ErrorResponse code message \<Rightarrow>
          (if code = 401 then OpsOrchError ''unauthorized'' ''GitHub API authentication failed''
           else if code = 403 then OpsOrchError ''forbidden'' forbidden
           else if code = 404 then OpsOrchError ''not_found'' notFound
           else if code = 422
             then OpsOrchError ''bad_request'' (''GitHub API validation error: '' @ message)
           else OpsOrchError ''provider_error'' (''GitHub API error: '' @ message))
      | OtherError text \<Rightarrow> OpsOrchError ''provider_error'' (''GitHub API error: '' @ text))"

definition ticket_wrapError :: "gh_error \<Rightarrow> error" where
  "ticket_wrapError =
     wrapError ''GitHub API access forbidden'' ''GitHub repository or issue not found''"

definition deployment_wrapError :: "gh_error \<Rightarrow> error" where
  "deployment_wrapError =
     wrapError ''GitHub API access forbidden'' ''GitHub repository or workflow run not found''"

definition team_wrapError :: "gh_error \<Rightarrow> error" where
  "team_wrapError =
     wrapError ''GitHub API access forbidden - check token permissions''
       ''GitHub organization or team not found''"

section \<open>Upstream records and the upstream client\<close>

text \<open>The records of the upstream client library, with the fields the adapters read.
  The adapters read pointer fields through the library's getters, which give the zero
  value for a missing field, so a string field is a string and a number an \<^typ>\<open>int\<close>;
  the fields the code tests against \<^verbatim>\<open>nil\<close> are options. A time is an instant counted
  from Go's zero time, and \<^verbatim>\<open>IsZero\<close> is the test for 0.\<close>

type_synonym Time = int

record User =
  User_Login :: string
  User_ID :: int
  User_AvatarURL :: string
  User_HTMLURL :: string
  User_SiteAdmin :: bool
  User_Type :: string
  User_Name :: string
  User_Email :: string
  User_Company :: string
  User_Location :: string
  User_Bio :: string
  User_Blog :: string
  User_TwitterUsername :: string
  User_PublicRepos :: int
  User_Followers :: int
  User_Following :: int

record Label =
  Label_Name :: string

record Milestone =
  Milestone_Title :: string

record PullRequestLinks =
  PullRequestLinks_URL :: string

record Issue =
  Issue_Number :: int
  Issue_Title :: string
  Issue_Body :: string
  Issue_State :: string
  Issue_HTMLURL :: string
  Issue_CreatedAt :: Time
  Issue_UpdatedAt :: Time
  Issue_Assignees :: "User list"
  Issue_User :: "User option"
  Issue_Labels :: "Label list"
  Issue_Milestone :: "Milestone option"
  Issue_PullRequestLinks :: "PullRequestLinks option"

record IssueListByRepoOptions =
  IssueList_PerPage :: int
  IssueList_State :: string
  IssueList_Assignee :: string
  IssueList_Labels :: "string list"

record IssueRequest =
  IssueRequest_Title :: "string option"
  IssueRequest_Body :: "string option"
  IssueRequest_State :: "string option"
  IssueRequest_Assignees :: "string list option"
  IssueRequest_Labels :: "string list option"

record HeadCommit =
  HeadCommit_Message :: string

record WorkflowRun =
  Run_ID :: int
  Run_Name :: string
  Run_Status :: string
  Run_Conclusion :: string
  Run_HTMLURL :: string
  Run_HeadBranch :: string
  Run_HeadSHA :: string
  Run_CreatedAt :: Time
  Run_UpdatedAt :: Time
  Run_Actor :: "User option"
  Run_HeadCommit :: "HeadCommit option"

record ListWorkflowRunsOptions =
  RunList_PerPage :: int
  RunList_Status :: string
  RunList_Branch :: string
  RunList_Actor :: string
  RunList_Event :: string

text \<open>Of a parent team the code reads the id and the slug only.\<close>

record ParentTeam =
  Parent_ID :: int
  Parent_Slug :: string

record GHTeam =
  GHTeam_ID :: int
  GHTeam_Slug :: string
  GHTeam_Name :: string
  GHTeam_HTMLURL :: string
  GHTeam_Privacy :: string
  GHTeam_Permission :: string
  GHTeam_Description :: string
  GHTeam_MembersURL :: string
  GHTeam_RepositoriesURL :: string
  GHTeam_MembersCount :: int
  GHTeam_ReposCount :: int
  GHTeam_Parent :: "ParentTeam option"

record Organization =
  Organization_ID :: int

record Membership =
  Membership_Role :: string

text \<open>The remote API behind the client library is outside the adapters. It is a state
  \<open>'w\<close> and one function per operation the adapters call: the function takes the client
  handle, the arguments of the call, and the state, and gives the answer and the next
  state. The page size of a list operation travels in its options; the adapters never
  set a page number, so every list call asks for the first page.\<close>

record 'w GitHub =
  Issues_ListByRepo ::
    "Client \<Rightarrow> string \<Rightarrow> string \<Rightarrow> IssueListByRepoOptions \<Rightarrow> 'w \<Rightarrow> (gh_error + Issue list) \<times> 'w"
  Issues_Get :: "Client \<Rightarrow> string \<Rightarrow> string \<Rightarrow> int \<Rightarrow> 'w \<Rightarrow> (gh_error + Issue) \<times> 'w"
  Issues_Create :: "Client \<Rightarrow> string \<Rightarrow> string \<Rightarrow> IssueRequest \<Rightarrow> 'w \<Rightarrow> (gh_error + Issue) \<times> 'w"
  Issues_Edit ::
    "Client \<Rightarrow> string \<Rightarrow> string \<Rightarrow> int \<Rightarrow> IssueRequest \<Rightarrow> 'w \<Rightarrow> (gh_error + Issue) \<times> 'w"
  Actions_ListRepositoryWorkflowRuns ::
    "Client \<Rightarrow> string \<Rightarrow> string \<Rightarrow> ListWorkflowRunsOptions \<Rightarrow> 'w
      \<Rightarrow> (gh_error + WorkflowRun list) \<times> 'w"
  Actions_GetWorkflowRunByID ::
    "Client \<Rightarrow> string \<Rightarrow> string \<Rightarrow> int \<Rightarrow> 'w \<Rightarrow> (gh_error + WorkflowRun) \<times> 'w"
  Teams_ListTeams :: "Client \<Rightarrow> string \<Rightarrow> int \<Rightarrow> 'w \<Rightarrow> (gh_error + GHTeam list) \<times> 'w"
  Teams_GetTeamBySlug :: "Client \<Rightarrow> string \<Rightarrow> string \<Rightarrow> 'w \<Rightarrow> (gh_error + GHTeam) \<times> 'w"
  Teams_GetTeamByID :: "Client \<Rightarrow> int \<Rightarrow> int \<Rightarrow> 'w \<Rightarrow> (gh_error + GHTeam) \<times> 'w"
  Teams_ListTeamMembersByID ::
    "Client \<Rightarrow> int \<Rightarrow> int \<Rightarrow> int \<Rightarrow> 'w \<Rightarrow> (gh_error + User list) \<times> 'w"
  Teams_GetTeamMembershipByID ::
    "Client \<Rightarrow> int \<Rightarrow> int \<Rightarrow> string \<Rightarrow> 'w \<Rightarrow> (gh_error + Membership option) \<times> 'w"
  Organizations_Get :: "Client \<Rightarrow> string \<Rightarrow> 'w \<Rightarrow> (gh_error + Organization) \<times> 'w"
  Users_Get :: "Client \<Rightarrow> string \<Rightarrow> 'w \<Rightarrow> (gh_error + User) \<times> 'w"

section \<open>Canonical records\<close>

record QueryScope =
  Scope_Service :: string
  Scope_Team :: string
  Scope_Environment :: string

record TicketQuery =
  TicketQuery_Statuses :: "string list"
  TicketQuery_Scope :: QueryScope
  TicketQuery_Limit :: int
  TicketQuery_Metadata :: "string \<rightharpoonup> any"

record CreateTicketInput =
  Create_Title :: string
  Create_Description :: string
  Create_Fields :: "string \<rightharpoonup> any"
  Create_Metadata :: "string \<rightharpoonup> any"

record UpdateTicketInput =
  Update_Title :: "string option"
  Update_Description :: "string option"
  Update_Status :: "string option"
  Update_Assignees :: "string list option"

record Ticket =
  Ticket_ID :: string
  Ticket_Title :: string
  Ticket_Description :: string
  Ticket_Status :: string
  Ticket_URL :: string
  Ticket_CreatedAt :: Time
  Ticket_UpdatedAt :: Time
  Ticket_Fields :: "string \<rightharpoonup> any"
  Ticket_Assignees :: "string list"
  Ticket_Reporter :: string

record DeploymentQuery =
  DeploymentQuery_Statuses :: "string list"
  DeploymentQuery_Scope :: QueryScope
  DeploymentQuery_Limit :: int
  DeploymentQuery_Metadata :: "string \<rightharpoonup> any"

record Deployment =
  Deployment_ID :: string
  Deployment_Status :: string
  Deployment_URL :: string
  Deployment_Fields :: "string \<rightharpoonup> any"
  Deployment_StartedAt :: Time
  Deployment_FinishedAt :: Time
  Deployment_Service :: string
  Deployment_Environment :: string
  Deployment_Version :: string
  Deployment_Actor :: "string \<rightharpoonup> any"

text \<open>The tags of a team query are a Go map; the filter ranges over its entries and
  needs all of them to agree, so the entries are a list and their order is immaterial.\<close>

record TeamQuery =
  TeamQuery_Name :: string
  TeamQuery_Tags :: "(string \<times> string) list"

record Team =
  Team_ID :: string
  Team_Name :: string
  Team_URL :: string
  Team_Parent :: string
  Team_Tags :: "string \<rightharpoonup> string"
  Team_Metadata :: "string \<rightharpoonup> any"

record TeamMember =
  TeamMember_ID :: string
  TeamMember_Name :: string
  TeamMember_Email :: string
  TeamMember_Handle :: string
  TeamMember_Role :: string
  TeamMember_Metadata :: "string \<rightharpoonup> any"

section \<open>Ticket adapter\<close>

text \<open>\<^verbatim>\<open>convertIssueToTicket\<close>.\<close>

definition convertIssueToTicket :: "Issue \<Rightarrow> Ticket" where
  "convertIssueToTicket issue =
     (let fields0 = [''url'' \<mapsto> AString (Issue_HTMLURL issue)];
          fields1 = (if length (Issue_Labels issue) > 0
                     then fields0(''labels'' \<mapsto> AStrings (map Label_Name (Issue_Labels issue)))
                     else fields0);
          fields2 = (case Issue_Milestone issue of
                       Some milestone \<Rightarrow> fields1(''milestone'' \<mapsto> AString (Milestone_Title milestone))
                     | None \<Rightarrow> fields1)
      in \<lparr>Ticket_ID = FormatInt (Issue_Number issue),
          Ticket_Title = Issue_Title issue,
          Ticket_Description = Issue_Body issue,
          Ticket_Status = ticket_normalizeStatus (Issue_State issue),
          Ticket_URL = Issue_HTMLURL issue,
          Ticket_CreatedAt = Issue_CreatedAt issue,
          Ticket_UpdatedAt = Issue_UpdatedAt issue,
          Ticket_Fields = fields2,
          Ticket_Assignees = (if length (Issue_Assignees issue) > 0
                              then map User_Login (Issue_Assignees issue) else []),
          Ticket_Reporter = (case Issue_User issue of Some user \<Rightarrow> User_Login user | None \<Rightarrow> [])\<rparr>)"

text \<open>\<^verbatim>\<open>Query\<close>, first half: the options of the list call. The loop over the requested
  statuses overwrites the state at each status it knows, so the last such status
  decides.\<close>

definition ticket_statusState :: "string \<Rightarrow> string \<Rightarrow> string" where
  "ticket_statusState state status =
     (let s = ToLower status in
      if s = ''open'' \<or> s = ''new'' \<or> s = ''in_progress'' then ''open''
      else if s = ''closed'' \<or> s = ''resolved'' \<or> s = ''done'' then ''closed''
      else state)"

definition ticket_queryOptions :: "TicketQuery \<Rightarrow> IssueListByRepoOptions" where
  "ticket_queryOptions query =
     (let opts0 = \<lparr>IssueList_PerPage = 100, IssueList_State = [], IssueList_Assignee = [],
                   IssueList_Labels = []\<rparr>;
          opts1 = (if TicketQuery_Limit query > 0 \<and> TicketQuery_Limit query < 100
                   then opts0\<lparr>IssueList_PerPage := TicketQuery_Limit query\<rparr> else opts0);
          opts2 = (if length (TicketQuery_Statuses query) > 0
                   then opts1\<lparr>IssueList_State :=
                          foldl ticket_statusState (IssueList_State opts1) (TicketQuery_Statuses query)\<rparr>
                   else opts1);
          opts3 = (if Scope_Team (TicketQuery_Scope query) \<noteq> []
                   then opts2\<lparr>IssueList_Assignee := Scope_Team (TicketQuery_Scope query)\<rparr>
                   else opts2)
      in case asStrings (TicketQuery_Metadata query ''labels'') of
           Some labels \<Rightarrow> opts3\<lparr>IssueList_Labels := labels\<rparr>
         | None \<Rightarrow> opts3)"

text \<open>\<^verbatim>\<open>Query\<close>, second half: the loop over the issues of the answer, which skips a
  record that carries pull-request links.\<close>

fun ticket_collect :: "Issue list \<Rightarrow> Ticket list" where
  "ticket_collect [] = []"
| "ticket_collect (issue # issues) =
     (if Issue_PullRequestLinks issue \<noteq> None then ticket_collect issues
      else convertIssueToTicket issue # ticket_collect issues)"

definition ticket_Query ::
  "'w GitHub \<Rightarrow> ticket_Provider \<Rightarrow> TicketQuery \<Rightarrow> 'w \<Rightarrow> (error + Ticket list) \<times> 'w" where
  "ticket_Query gh p query w =
     (case Issues_ListByRepo gh (ticket_client p) (ticket_Owner (ticket_config p))
             (ticket_Repo (ticket_config p)) (ticket_queryOptions query) w of
        (Inl err, w') \<Rightarrow> (Inl (ticket_wrapError err), w')
      | (Inr issues, w') \<Rightarrow> (Inr (ticket_collect issues), w'))"

definition ticket_Get ::
  "'w GitHub \<Rightarrow> ticket_Provider \<Rightarrow> string \<Rightarrow> 'w \<Rightarrow> (error + Ticket) \<times> 'w" where
  "ticket_Get gh p ident w =
     (case ParseInt ident of
        None \<Rightarrow> (Inl (OpsOrchError ''bad_request'' (''invalid issue number: '' @ ident)), w)
      | Some issueNumber \<Rightarrow>
         (case Issues_Get gh (ticket_client p) (ticket_Owner (ticket_config p))
                 (ticket_Repo (ticket_config p)) issueNumber w of
            (Inl err, w') \<Rightarrow> (Inl (ticket_wrapError err), w')
          | (Inr issue, w') \<Rightarrow> (Inr (convertIssueToTicket issue), w')))"

definition ticket_createRequest :: "CreateTicketInput \<Rightarrow> IssueRequest" where
  "ticket_createRequest input =
     \<lparr>IssueRequest_Title = Some (Create_Title input),
      IssueRequest_Body = Some (Create_Description input),
      IssueRequest_State = None,
      IssueRequest_Assignees =
        (case asStrings (Create_Fields input ''assignees'') of
           Some assignees \<Rightarrow> if length assignees > 0 then Some assignees else None
         | None \<Rightarrow> None),
      IssueRequest_Labels = asStrings (Create_Metadata input ''labels'')\<rparr>"

definition ticket_Create ::
  "'w GitHub \<Rightarrow> ticket_Provider \<Rightarrow> CreateTicketInput \<Rightarrow> 'w \<Rightarrow> (error + Ticket) \<times> 'w" where
  "ticket_Create gh p input w =
     (case Issues_Create gh (ticket_client p) (ticket_Owner (ticket_config p))
             (ticket_Repo (ticket_config p)) (ticket_createRequest input) w of
        (Inl err, w') \<Rightarrow> (Inl (ticket_wrapError err), w')
      | (Inr issue, w') \<Rightarrow> (Inr (convertIssueToTicket issue), w'))"

text \<open>\<^verbatim>\<open>Update\<close>: the request is built field by field from the fields of the input that
  are present and not empty; the switch on the status has the two alias groups and no
  default branch.\<close>

definition ticket_updateRequest :: "UpdateTicketInput \<Rightarrow> IssueRequest" where
  "ticket_updateRequest input =
     \<lparr>IssueRequest_Title =
        (case Update_Title input of
           Some title \<Rightarrow> if title \<noteq> [] then Some title else None
         | None \<Rightarrow> None),
      IssueRequest_Body =
        (case Update_Description input of
           Some description \<Rightarrow> if description \<noteq> [] then Some description else None
         | None \<Rightarrow> None),
      IssueRequest_State =
        (case Update_Status input of
           Some status \<Rightarrow>
             if status \<noteq> [] then
               (let s = ToLower status in
                if s = ''open'' \<or> s = ''new'' \<or> s = ''in_progress'' then Some ''open''
                else if s = ''closed'' \<or> s = ''resolved'' \<or> s = ''done'' then Some ''closed''
                else None)
             else None
         | None \<Rightarrow> None),
      IssueRequest_Assignees =
        (case Update_Assignees input of
           Some assignees \<Rightarrow> if length assignees > 0 then Some assignees else None
         | None \<Rightarrow> None),
      IssueRequest_Labels = None\<rparr>"

definition ticket_Update ::
  "'w GitHub \<Rightarrow> ticket_Provider \<Rightarrow> string \<Rightarrow> UpdateTicketInput \<Rightarrow> 'w \<Rightarrow> (error + Ticket) \<times> 'w" where
  "ticket_Update gh p ident input w =
     (case ParseInt ident of
        None \<Rightarrow> (Inl (OpsOrchError ''bad_request'' (''invalid issue number: '' @ ident)), w)
      | Some issueNumber \<Rightarrow>
         (case Issues_Edit gh (ticket_client p) (ticket_Owner (ticket_config p))
                 (ticket_Repo (ticket_config p)) issueNumber (ticket_updateRequest input) w of
            (Inl err, w') \<Rightarrow> (Inl (ticket_wrapError err), w')
          | (Inr issue, w') \<Rightarrow> (Inr (convertIssueToTicket issue), w')))"

section \<open>Deployment adapter\<close>

text \<open>\<^verbatim>\<open>convertWorkflowRunToDeployment\<close>. The version is the first seven bytes of the head
  SHA when it has that many.\<close>

definition convertWorkflowRunToDeployment :: "deployment_Provider \<Rightarrow> WorkflowRun \<Rightarrow> Deployment" where
  "convertWorkflowRunToDeployment p run =
     (let fields0 = [''workflow_name'' \<mapsto> AString (Run_Name run),
                     ''branch'' \<mapsto> AString (Run_HeadBranch run),
                     ''commit'' \<mapsto> AString (Run_HeadSHA run)];
          fields1 = (case Run_HeadCommit run of
                       Some headCommit \<Rightarrow>
                         fields0(''commit_message'' \<mapsto> AString (HeadCommit_Message headCommit))
                     | None \<Rightarrow> fields0)
      in \<lparr>Deployment_ID = FormatInt (Run_ID run),
          Deployment_Status = deployment_normalizeStatus (Run_Status run) (Run_Conclusion run),
          Deployment_URL = Run_HTMLURL run,
          Deployment_Fields = fields1,
          Deployment_StartedAt = (if Run_CreatedAt run \<noteq> 0 then Run_CreatedAt run else 0),
          Deployment_FinishedAt = (if Run_UpdatedAt run \<noteq> 0 then Run_UpdatedAt run else 0),
          Deployment_Service = deployment_Repo (deployment_config p),
          Deployment_Environment = extractEnvironment (Run_Name run) (Run_HeadBranch run),
          Deployment_Version = (if Run_HeadSHA run \<noteq> [] \<and> length (Run_HeadSHA run) \<ge> 7
                                then take 7 (Run_HeadSHA run) else []),
          Deployment_Actor = (case Run_Actor run of
                                Some actor \<Rightarrow> [''login'' \<mapsto> AString (User_Login actor)]
                              | None \<Rightarrow> Map.empty)\<rparr>)"

text \<open>\<^verbatim>\<open>Query\<close>: the options of the list call, then the loop over the runs of the
  answer with the filters on status, service and environment.\<close>

definition deployment_statusFilter :: "string \<Rightarrow> string \<Rightarrow> string" where
  "deployment_statusFilter current status =
     (let s = ToLower status in
      if s = ''queued'' then ''queued''
      else if s = ''running'' \<or> s = ''in_progress'' then ''in_progress''
      else if s = ''success'' \<or> s = ''completed'' then ''completed''
      else if s = ''failed'' then ''completed''
      else if s = ''cancelled'' then ''completed''
      else current)"

definition deployment_queryOptions :: "DeploymentQuery \<Rightarrow> ListWorkflowRunsOptions" where
  "deployment_queryOptions query =
     (let opts0 = \<lparr>RunList_PerPage = 100, RunList_Status = [], RunList_Branch = [],
                   RunList_Actor = [], RunList_Event = []\<rparr>;
          opts1 = (if DeploymentQuery_Limit query > 0 \<and> DeploymentQuery_Limit query < 100
                   then opts0\<lparr>RunList_PerPage := DeploymentQuery_Limit query\<rparr> else opts0);
          opts2 = (if length (DeploymentQuery_Statuses query) > 0
                   then opts1\<lparr>RunList_Status :=
                          foldl deployment_statusFilter (RunList_Status opts1)
                            (DeploymentQuery_Statuses query)\<rparr>
                   else opts1);
          opts3 = (case asString (DeploymentQuery_Metadata query ''branch'') of
                     Some branch \<Rightarrow> opts2\<lparr>RunList_Branch := branch\<rparr> | None \<Rightarrow> opts2);
          opts4 = (case asString (DeploymentQuery_Metadata query ''actor'') of
                     Some actor \<Rightarrow> opts3\<lparr>RunList_Actor := actor\<rparr> | None \<Rightarrow> opts3)
      in case asString (DeploymentQuery_Metadata query ''event'') of
           Some event \<Rightarrow> opts4\<lparr>RunList_Event := event\<rparr>
         | None \<Rightarrow> opts4)"

fun deployment_collect :: "deployment_Provider \<Rightarrow> DeploymentQuery \<Rightarrow> WorkflowRun list \<Rightarrow> Deployment list" where
  "deployment_collect p query [] = []"
| "deployment_collect p query (run # runs) =
     (if length (DeploymentQuery_Statuses query) > 0
         \<and> \<not> list_ex (EqualFold (deployment_normalizeStatus (Run_Status run) (Run_Conclusion run)))
               (DeploymentQuery_Statuses query)
      then deployment_collect p query runs
      else
        (let deployment = convertWorkflowRunToDeployment p run in
         if Scope_Service (DeploymentQuery_Scope query) \<noteq> []
            \<and> Deployment_Service deployment \<noteq> Scope_Service (DeploymentQuery_Scope query)
         then deployment_collect p query runs
         else if Scope_Environment (DeploymentQuery_Scope query) \<noteq> []
            \<and> Deployment_Environment deployment \<noteq> Scope_Environment (DeploymentQuery_Scope query)
         then deployment_collect p query runs
         else deployment # deployment_collect p query runs))"

definition deployment_Query ::
  "'w GitHub \<Rightarrow> deployment_Provider \<Rightarrow> DeploymentQuery \<Rightarrow> 'w \<Rightarrow> (error + Deployment list) \<times> 'w" where
  "deployment_Query gh p query w =
     (case Actions_ListRepositoryWorkflowRuns gh (deployment_client p)
             (deployment_Owner (deployment_config p)) (deployment_Repo (deployment_config p))
             (deployment_queryOptions query) w of
        (Inl err, w') \<Rightarrow> (Inl (deployment_wrapError err), w')
      | (Inr runs, w') \<Rightarrow> (Inr (deployment_collect p query runs), w'))"

definition deployment_Get ::
  "'w GitHub \<Rightarrow> deployment_Provider \<Rightarrow> string \<Rightarrow> 'w \<Rightarrow> (error + Deployment) \<times> 'w" where
  "deployment_Get gh p ident w =
     (case ParseInt ident of
        None \<Rightarrow> (Inl (OpsOrchError ''bad_request'' (''invalid workflow run ID: '' @ ident)), w)
      | Some runID \<Rightarrow>
         (case Actions_GetWorkflowRunByID gh (deployment_client p)
                 (deployment_Owner (deployment_config p)) (deployment_Repo (deployment_config p))
                 runID w of
            (Inl err, w') \<Rightarrow> (Inl (deployment_wrapError err), w')
          | (Inr run, w') \<Rightarrow> (Inr (convertWorkflowRunToDeployment p run), w')))"

section \<open>Team adapter\<close>

text \<open>\<^verbatim>\<open>convertTeamToSchema\<close>.\<close>

definition convertTeamToSchema :: "team_Provider \<Rightarrow> GHTeam \<Rightarrow> Team" where
  "convertTeamToSchema p team =
     \<lparr>Team_ID = (if GHTeam_Slug team \<noteq> [] then GHTeam_Slug team else FormatInt (GHTeam_ID team)),
      Team_Name = GHTeam_Name team,
      Team_URL = GHTeam_HTMLURL team,
      Team_Parent =
        (case GHTeam_Parent team of
           Some parent \<Rightarrow>
             if Parent_Slug parent \<noteq> [] then Parent_Slug parent else FormatInt (Parent_ID parent)
         | None \<Rightarrow> []),
      Team_Tags = [''provider'' \<mapsto> ''github'',
                   ''privacy'' \<mapsto> GHTeam_Privacy team,
                   ''permission'' \<mapsto> GHTeam_Permission team,
                   ''organization'' \<mapsto> team_Organization (team_config p)],
      Team_Metadata = [''github_id'' \<mapsto> AInt (GHTeam_ID team),
                       ''slug'' \<mapsto> AString (GHTeam_Slug team),
                       ''description'' \<mapsto> AString (GHTeam_Description team),
                       ''privacy'' \<mapsto> AString (GHTeam_Privacy team),
                       ''permission'' \<mapsto> AString (GHTeam_Permission team),
                       ''html_url'' \<mapsto> AString (GHTeam_HTMLURL team),
                       ''members_url'' \<mapsto> AString (GHTeam_MembersURL team),
                       ''repositories_url'' \<mapsto> AString (GHTeam_RepositoriesURL team),
                       ''members_count'' \<mapsto> AInt (GHTeam_MembersCount team),
                       ''repos_count'' \<mapsto> AInt (GHTeam_ReposCount team)]\<rparr>"

text \<open>\<^verbatim>\<open>Query\<close>. Reading a tag that the team does not have gives the empty string.\<close>

definition tag_of :: "Team \<Rightarrow> string \<Rightarrow> string" where
  "tag_of team key = (case Team_Tags team key of Some v \<Rightarrow> v | None \<Rightarrow> [])"

fun team_collect :: "team_Provider \<Rightarrow> TeamQuery \<Rightarrow> GHTeam list \<Rightarrow> Team list" where
  "team_collect p query [] = []"
| "team_collect p query (team # teams) =
     (let normalizedTeam = convertTeamToSchema p team in
      if TeamQuery_Name query \<noteq> []
         \<and> \<not> Contains (ToLower (Team_Name normalizedTeam)) (ToLower (TeamQuery_Name query))
      then team_collect p query teams
      else if length (TeamQuery_Tags query) > 0
         \<and> \<not> list_all (\<lambda>(key, v). tag_of normalizedTeam key = v) (TeamQuery_Tags query)
      then team_collect p query teams
      else normalizedTeam # team_collect p query teams)"

definition team_Query ::
  "'w GitHub \<Rightarrow> team_Provider \<Rightarrow> TeamQuery \<Rightarrow> 'w \<Rightarrow> (error + Team list) \<times> 'w" where
  "team_Query gh p query w =
     (case Teams_ListTeams gh (team_client p) (team_Organization (team_config p)) 100 w of
        (Inl err, w') \<Rightarrow> (Inl (team_wrapError err), w')
      | (Inr teams, w') \<Rightarrow> (Inr (team_collect p query teams), w'))"

definition team_Get :: "'w GitHub \<Rightarrow> team_Provider \<Rightarrow> string \<Rightarrow> 'w \<Rightarrow> (error + Team) \<times> 'w" where
  "team_Get gh p ident w =
     (case ParseInt ident of
        None \<Rightarrow>
          (case Teams_GetTeamBySlug gh (team_client p) (team_Organization (team_config p)) ident w of
             (Inl err, w') \<Rightarrow> (Inl (team_wrapError err), w')
           | (Inr team, w') \<Rightarrow> (Inr (convertTeamToSchema p team), w'))
      | Some teamID \<Rightarrow>
          (case Organizations_Get gh (team_client p) (team_Organization (team_config p)) w of
             (Inl err, w1) \<Rightarrow> (Inl (team_wrapError err), w1)
           | (Inr org, w1) \<Rightarrow>
               (case Teams_GetTeamByID gh (team_client p) (Organization_ID org) teamID w1 of
                  (Inl err, w2) \<Rightarrow> (Inl (team_wrapError err), w2)
                | (Inr team, w2) \<Rightarrow> (Inr (convertTeamToSchema p team), w2))))"

text \<open>\<^verbatim>\<open>Members\<close>. The two shapes of a member: with the basic fields only, when the
  lookup of the user failed, and with the details of the user and the normalised role.\<close>

definition basicMember :: "User \<Rightarrow> TeamMember" where
  "basicMember member =
     \<lparr>TeamMember_ID = User_Login member,
      TeamMember_Name = User_Login member,
      TeamMember_Email = [],
      TeamMember_Handle = User_Login member,
      TeamMember_Role = ''member'',
      TeamMember_Metadata = [''github_id'' \<mapsto> AInt (User_ID member),
                             ''avatar_url'' \<mapsto> AString (User_AvatarURL member),
                             ''html_url'' \<mapsto> AString (User_HTMLURL member),
                             ''site_admin'' \<mapsto> ABool (User_SiteAdmin member),
                             ''type'' \<mapsto> AString (User_Type member)]\<rparr>"

definition detailedMember :: "User \<Rightarrow> User \<Rightarrow> string \<Rightarrow> TeamMember" where
  "detailedMember member user role =
     \<lparr>TeamMember_ID = User_Login member,
      TeamMember_Name = User_Name user,
      TeamMember_Email = User_Email user,
      TeamMember_Handle = User_Login member,
      TeamMember_Role = normalizeRole role,
      TeamMember_Metadata = [''github_id'' \<mapsto> AInt (User_ID member),
                             ''avatar_url'' \<mapsto> AString (User_AvatarURL member),
                             ''html_url'' \<mapsto> AString (User_HTMLURL member),
                             ''site_admin'' \<mapsto> ABool (User_SiteAdmin member),
                             ''type'' \<mapsto> AString (User_Type member),
                             ''company'' \<mapsto> AString (User_Company user),
                             ''location'' \<mapsto> AString (User_Location user),
                             ''bio'' \<mapsto> AString (User_Bio user),
                             ''blog'' \<mapsto> AString (User_Blog user),
                             ''twitter'' \<mapsto> AString (User_TwitterUsername user),
                             ''public_repos'' \<mapsto> AInt (User_PublicRepos user),
                             ''followers'' \<mapsto> AInt (User_Followers user),
                             ''following'' \<mapsto> AInt (User_Following user)]\<rparr>"

text \<open>The loop over the members: one lookup of the user and, when that succeeds, one
  lookup of the membership, each on the state the previous call left.\<close>

fun members_loop ::
  "'w GitHub \<Rightarrow> team_Provider \<Rightarrow> int \<Rightarrow> int \<Rightarrow> User list \<Rightarrow> 'w \<Rightarrow> TeamMember list \<times> 'w" where
  "members_loop gh p orgID tid [] w = ([], w)"
| "members_loop gh p orgID tid (member # members) w =
     (case Users_Get gh (team_client p) (User_Login member) w of
        (Inl err, w1) \<Rightarrow>
          (let (result, w') = members_loop gh p orgID tid members w1
           in (basicMember member # result, w'))
      | (Inr user, w1) \<Rightarrow>
          (let (membership, w2) =
                 Teams_GetTeamMembershipByID gh (team_client p) orgID tid (User_Login member) w1;
               role = (case membership of
                         Inr (Some m) \<Rightarrow> Membership_Role m
                       | _ \<Rightarrow> ''member'');
               (result, w') = members_loop gh p orgID tid members w2
           in (detailedMember member user role # result, w')))"

text \<open>The part of \<^verbatim>\<open>Members\<close> after the team id is known.\<close>

definition members_of ::
  "'w GitHub \<Rightarrow> team_Provider \<Rightarrow> int \<Rightarrow> 'w \<Rightarrow> (error + TeamMember list) \<times> 'w" where
  "members_of gh p tid w =
     (case Organizations_Get gh (team_client p) (team_Organization (team_config p)) w of
        (Inl err, w1) \<Rightarrow> (Inl (team_wrapError err), w1)
      | (Inr org, w1) \<Rightarrow>
          (case Teams_ListTeamMembersByID gh (team_client p) (Organization_ID org) tid 100 w1 of
             (Inl err, w2) \<Rightarrow> (Inl (team_wrapError err), w2)
           | (Inr members, w2) \<Rightarrow>
               (let (result, w') = members_loop gh p (Organization_ID org) tid members w2
                in (Inr result, w'))))"

definition team_Members ::
  "'w GitHub \<Rightarrow> team_Provider \<Rightarrow> string \<Rightarrow> 'w \<Rightarrow> (error + TeamMember list) \<times> 'w" where
  "team_Members gh p teamID w =
     (case ParseInt teamID of
        Some tid \<Rightarrow> members_of gh p tid w
      | None \<Rightarrow>
          (case Teams_GetTeamBySlug gh (team_client p) (team_Organization (team_config p)) teamID w of
             (Inl err, w') \<Rightarrow> (Inl (team_wrapError err), w')
           | (Inr team, w') \<Rightarrow> members_of gh p (GHTeam_ID team) w'))"

section \<open>The bridges\<close>

text \<open>A bridge process reads requests from its standard input and writes one response
  for each. JSON decoding is outside the adapters: the input is the list of outcomes of
  the successive calls of the stream decoder, a decoded request or a decoding error with
  its text, and the end of the list is the end of the stream; the payload of a request
  stays raw (type \<open>'raw\<close>) until the branch of its method decodes it with one of the
  functions of \<open>JSON\<close>, which also holds the text that the orchestrator's error type
  gives for a code and a message.\<close>

datatype 'req input = Request 'req | DecodeError string

record 'raw JSON =
  Unmarshal_TicketQuery :: "'raw \<Rightarrow> error + TicketQuery"
  Unmarshal_CreateTicketInput :: "'raw \<Rightarrow> error + CreateTicketInput"
  Unmarshal_UpdatePayload :: "'raw \<Rightarrow> error + string \<times> UpdateTicketInput"
  Unmarshal_DeploymentQuery :: "'raw \<Rightarrow> error + DeploymentQuery"
  Unmarshal_TeamQuery :: "'raw \<Rightarrow> error + TeamQuery"
  Unmarshal_ID :: "'raw \<Rightarrow> error + string"
  Unmarshal_TeamID :: "'raw \<Rightarrow> error + string"
  Unmarshal_Config :: "string \<Rightarrow> error + (string \<rightharpoonup> any)"
  OpsOrchError_Error :: "string \<Rightarrow> string \<Rightarrow> string"

definition Error_text :: "'raw JSON \<Rightarrow> error \<Rightarrow> string" where
  "Error_text js err =
     (case err of
        Errorf text \<Rightarrow> text
      | OpsOrchError code message \<Rightarrow> OpsOrchError_Error js code message)"

record 'raw rpcRequest =
  rpc_Method :: string
  rpc_Config :: "string \<rightharpoonup> any"
  rpc_Payload :: 'raw

datatype 'r rpcResponse = rpc_Result 'r | rpc_Error string

datatype 'r stdout = Println string | Encode 'r

text \<open>The operation of the adapter that a request made the bridge call, if any, is
  recorded beside the response.\<close>

datatype call =
    TicketQueryCall TicketQuery
  | TicketGetCall string
  | TicketCreateCall CreateTicketInput
  | TicketUpdateCall string UpdateTicketInput
  | DeploymentQueryCall DeploymentQuery
  | DeploymentGetCall string
  | TeamQueryCall TeamQuery
  | TeamGetCall string
  | TeamMembersCall string

record ('p, 'r) round =
  round_provider :: "'p option"
  round_response :: 'r
  round_call :: "call option"

datatype ticket_result = TicketList "Ticket list" | OneTicket Ticket

datatype deployment_result = DeploymentList "Deployment list" | OneDeployment Deployment

datatype team_result = TeamList "Team list" | OneTeam Team | MemberList "TeamMember list"

text \<open>\<^verbatim>\<open>cmd/ticketplugin/main.go\<close>, the switch on the method.\<close>

definition ticket_dispatch ::
  "'w GitHub \<Rightarrow> 'raw JSON \<Rightarrow> ticket_Provider \<Rightarrow> 'raw rpcRequest \<Rightarrow> 'w
    \<Rightarrow> ticket_result rpcResponse \<times> call option \<times> 'w" where
  "ticket_dispatch gh js provider req w =
     (if rpc_Method req = ''ticket.query'' then
        (case Unmarshal_TicketQuery js (rpc_Payload req) of
           Inl err \<Rightarrow> (rpc_Error (Error_text js err), None, w)
         | Inr query \<Rightarrow>
            (case ticket_Query gh provider query w of
               (Inl err, w') \<Rightarrow> (rpc_Error (Error_text js err), Some (TicketQueryCall query), w')
             | (Inr result, w') \<Rightarrow>
                 (rpc_Result (TicketList result), Some (TicketQueryCall query), w')))
      else if rpc_Method req = ''ticket.get'' then
        (case Unmarshal_ID js (rpc_Payload req) of
           Inl err \<Rightarrow> (rpc_Error (Error_text js err), None, w)
         | Inr ident \<Rightarrow>
            (case ticket_Get gh provider ident w of
               (Inl err, w') \<Rightarrow> (rpc_Error (Error_text js err), Some (TicketGetCall ident), w')
             | (Inr result, w') \<Rightarrow>
                 (rpc_Result (OneTicket result), Some (TicketGetCall ident), w')))
      else if rpc_Method req = ''ticket.create'' then
        (case Unmarshal_CreateTicketInput js (rpc_Payload req) of
           Inl err \<Rightarrow> (rpc_Error (Error_text js err), None, w)
         | Inr input \<Rightarrow>
            (case ticket_Create gh provider input w of
               (Inl err, w') \<Rightarrow> (rpc_Error (Error_text js err), Some (TicketCreateCall input), w')
             | (Inr result, w') \<Rightarrow>
                 (rpc_Result (OneTicket result), Some (TicketCreateCall input), w')))
      else if rpc_Method req = ''ticket.update'' then
        (case Unmarshal_UpdatePayload js (rpc_Payload req) of
           Inl err \<Rightarrow> (rpc_Error (Error_text js err), None, w)
         | Inr (ident, input) \<Rightarrow>
            (case ticket_Update gh provider ident input w of
               (Inl err, w') \<Rightarrow>
                 (rpc_Error (Error_text js err), Some (TicketUpdateCall ident input), w')
             | (Inr result, w') \<Rightarrow>
                 (rpc_Result (OneTicket result), Some (TicketUpdateCall ident input), w')))
      else (rpc_Error (''unknown method: '' @ rpc_Method req), None, w))"

text \<open>\<^verbatim>\<open>cmd/deploymentplugin/main.go\<close>, the switch on the method.\<close>

definition deployment_dispatch ::
  "'w GitHub \<Rightarrow> 'raw JSON \<Rightarrow> deployment_Provider \<Rightarrow> 'raw rpcRequest \<Rightarrow> 'w
    \<Rightarrow> deployment_result rpcResponse \<times> call option \<times> 'w" where
  "deployment_dispatch gh js provider req w =
     (if rpc_Method req = ''deployment.query'' then
        (case Unmarshal_DeploymentQuery js (rpc_Payload req) of
           Inl err \<Rightarrow> (rpc_Error (Error_text js err), None, w)
         | Inr query \<Rightarrow>
            (case deployment_Query gh provider query w of
               (Inl err, w') \<Rightarrow>
                 (rpc_Error (Error_text js err), Some (DeploymentQueryCall query), w')
             | (Inr result, w') \<Rightarrow>
                 (rpc_Result (DeploymentList result), Some (DeploymentQueryCall query), w')))
      else if rpc_Method req = ''deployment.get'' then
        (case Unmarshal_ID js (rpc_Payload req) of
           Inl err \<Rightarrow> (rpc_Error (Error_text js err), None, w)
         | Inr ident \<Rightarrow>
            (case deployment_Get gh provider ident w of
               (Inl err, w') \<Rightarrow> (rpc_Error (Error_text js err), Some (DeploymentGetCall ident), w')
             | (Inr result, w') \<Rightarrow>
                 (rpc_Result (OneDeployment result), Some (DeploymentGetCall ident), w')))
      else (rpc_Error (''unknown method: '' @ rpc_Method req), None, w))"

text \<open>The body of the loop of the ticket and the deployment bridge, which is the same
  text in both files but for the package named: when the provider variable is \<^verbatim>\<open>nil\<close>
  the adapter is built from the configuration of the request, and a failure is written
  as the response and ends the round; then the method is dispatched. (The type assertion
  on the new provider cannot fail, since \<^verbatim>\<open>New\<close> returns a provider of this package.) The
  parameters are the constructor and the switch.\<close>

definition rpc_step ::
  "((string \<rightharpoonup> any) \<Rightarrow> error + 'p)
    \<Rightarrow> ('p \<Rightarrow> 'raw rpcRequest \<Rightarrow> 'w \<Rightarrow> 'r rpcResponse \<times> call option \<times> 'w)
    \<Rightarrow> 'raw JSON \<Rightarrow> 'p option \<Rightarrow> 'raw rpcRequest \<Rightarrow> 'w
    \<Rightarrow> ('p, 'r rpcResponse) round \<times> 'w" where
  "rpc_step new dispatch js provider req w =
     (case (case provider of
              None \<Rightarrow> new (rpc_Config req)
            | Some p \<Rightarrow> Inr p) of
        Inl err \<Rightarrow>
          (\<lparr>round_provider = None, round_response = rpc_Error (Error_text js err),
            round_call = None\<rparr>, w)
      | Inr p \<Rightarrow>
          (let (response, invoked, w') = dispatch p req w
           in (\<lparr>round_provider = Some p, round_response = response, round_call = invoked\<rparr>, w')))"

text \<open>The loop: the end of the stream ends the process, and so does a decoding error,
  after it was written (unless its text is \<^verbatim>\<open>EOF\<close>).\<close>

fun rpc_loop ::
  "((string \<rightharpoonup> any) \<Rightarrow> error + 'p)
    \<Rightarrow> ('p \<Rightarrow> 'raw rpcRequest \<Rightarrow> 'w \<Rightarrow> 'r rpcResponse \<times> call option \<times> 'w)
    \<Rightarrow> 'raw JSON \<Rightarrow> 'p option \<Rightarrow> 'raw rpcRequest input list \<Rightarrow> 'w
    \<Rightarrow> ('p, 'r rpcResponse) round list \<times> 'w" where
  "rpc_loop new dispatch js provider [] w = ([], w)"
| "rpc_loop new dispatch js provider (DecodeError text # rest) w =
     (if text = ''EOF'' then ([], w)
      else ([\<lparr>round_provider = provider, round_response = rpc_Error text, round_call = None\<rparr>], w))"
| "rpc_loop new dispatch js provider (Request req # rest) w =
     (let (r, w1) = rpc_step new dispatch js provider req w;
          (rs, w') = rpc_loop new dispatch js (round_provider r) rest w1
      in (r # rs, w'))"

definition rpc_main ::
  "string \<Rightarrow> ((string \<rightharpoonup> any) \<Rightarrow> error + 'p)
    \<Rightarrow> ('p \<Rightarrow> 'raw rpcRequest \<Rightarrow> 'w \<Rightarrow> 'r rpcResponse \<times> call option \<times> 'w)
    \<Rightarrow> 'raw JSON \<Rightarrow> string list \<Rightarrow> 'raw rpcRequest input list \<Rightarrow> 'w
    \<Rightarrow> 'r rpcResponse stdout list \<times> 'w" where
  "rpc_main version new dispatch js args inputs w =
     (if length args > 1 \<and> args ! 1 = ''--version'' then ([Println version], w)
      else (let (rounds, w') = rpc_loop new dispatch js None inputs w
            in (map (\<lambda>r. Encode (round_response r)) rounds, w')))"

definition ticket_step ::
  "'w GitHub \<Rightarrow> 'raw JSON \<Rightarrow> ticket_Provider option \<Rightarrow> 'raw rpcRequest \<Rightarrow> 'w
    \<Rightarrow> (ticket_Provider, ticket_result rpcResponse) round \<times> 'w" where
  "ticket_step gh js = rpc_step ticket_New (ticket_dispatch gh js) js"

definition ticket_loop ::
  "'w GitHub \<Rightarrow> 'raw JSON \<Rightarrow> ticket_Provider option \<Rightarrow> 'raw rpcRequest input list \<Rightarrow> 'w
    \<Rightarrow> (ticket_Provider, ticket_result rpcResponse) round list \<times> 'w" where
  "ticket_loop gh js = rpc_loop ticket_New (ticket_dispatch gh js) js"

definition ticket_main ::
  "'w GitHub \<Rightarrow> 'raw JSON \<Rightarrow> string list \<Rightarrow> 'raw rpcRequest input list \<Rightarrow> 'w
    \<Rightarrow> ticket_result rpcResponse stdout list \<times> 'w" where
  "ticket_main gh js =
     rpc_main ''opsorch-github-ticket-plugin v1.0.0'' ticket_New (ticket_dispatch gh js) js"

definition deployment_step ::
  "'w GitHub \<Rightarrow> 'raw JSON \<Rightarrow> deployment_Provider option \<Rightarrow> 'raw rpcRequest \<Rightarrow> 'w
    \<Rightarrow> (deployment_Provider, deployment_result rpcResponse) round \<times> 'w" where
  "deployment_step gh js = rpc_step deployment_New (deployment_dispatch gh js) js"

definition deployment_loop ::
  "'w GitHub \<Rightarrow> 'raw JSON \<Rightarrow> deployment_Provider option \<Rightarrow> 'raw rpcRequest input list \<Rightarrow> 'w
    \<Rightarrow> (deployment_Provider, deployment_result rpcResponse) round list \<times> 'w" where
  "deployment_loop gh js = rpc_loop deployment_New (deployment_dispatch gh js) js"

definition deployment_main ::
  "'w GitHub \<Rightarrow> 'raw JSON \<Rightarrow> string list \<Rightarrow> 'raw rpcRequest input list \<Rightarrow> 'w
    \<Rightarrow> deployment_result rpcResponse stdout list \<times> 'w" where
  "deployment_main gh js =
     rpc_main ''opsorch-github-deployment-plugin v1.0.0'' deployment_New
       (deployment_dispatch gh js) js"

text \<open>\<^verbatim>\<open>cmd/teamplugin/main.go\<close>: \<^verbatim>\<open>handleRequest\<close>, the loop, which logs a decoding error
  and goes on to the next outcome of the decoder, and \<^verbatim>\<open>main\<close>, which builds the adapter
  once from the environment variable and ends the process when that fails.\<close>

record 'raw PluginRequest =
  Plugin_Method :: string
  Plugin_Params :: 'raw

record PluginError =
  PluginError_Code :: string
  PluginError_Message :: string

datatype PluginResponse = PluginResult team_result | PluginFailure PluginError

definition handleRequest ::
  "'w GitHub \<Rightarrow> 'raw JSON \<Rightarrow> team_Provider \<Rightarrow> 'raw PluginRequest \<Rightarrow> 'w
    \<Rightarrow> PluginResponse \<times> call option \<times> 'w" where
  "handleRequest gh js provider req w =
     (if Plugin_Method req = ''team.query'' then
        (case Unmarshal_TeamQuery js (Plugin_Params req) of
           Inl err \<Rightarrow>
             (PluginFailure \<lparr>PluginError_Code = ''bad_request'',
                PluginError_Message = ''Invalid query parameters: '' @ Error_text js err\<rparr>, None, w)
         | Inr query \<Rightarrow>
            (case team_Query gh provider query w of
               (Inl err, w') \<Rightarrow>
                 (PluginFailure \<lparr>PluginError_Code = ''provider_error'',
                    PluginError_Message = Error_text js err\<rparr>, Some (TeamQueryCall query), w')
             | (Inr teams, w') \<Rightarrow> (PluginResult (TeamList teams), Some (TeamQueryCall query), w')))
      else if Plugin_Method req = ''team.get'' then
        (case Unmarshal_ID js (Plugin_Params req) of
           Inl err \<Rightarrow>
             (PluginFailure \<lparr>PluginError_Code = ''bad_request'',
                PluginError_Message = ''Invalid parameters: '' @ Error_text js err\<rparr>, None, w)
         | Inr ident \<Rightarrow>
            (case team_Get gh provider ident w of
               (Inl err, w') \<Rightarrow>
                 (PluginFailure \<lparr>PluginError_Code = ''provider_error'',
                    PluginError_Message = Error_text js err\<rparr>, Some (TeamGetCall ident), w')
             | (Inr team, w') \<Rightarrow> (PluginResult (OneTeam team), Some (TeamGetCall ident), w')))
      else if Plugin_Method req = ''team.members'' then
        (case Unmarshal_TeamID js (Plugin_Params req) of
           Inl err \<Rightarrow>
             (PluginFailure \<lparr>PluginError_Code = ''bad_request'',
                PluginError_Message = ''Invalid parameters: '' @ Error_text js err\<rparr>, None, w)
         | Inr teamID \<Rightarrow>
            (case team_Members gh provider teamID w of
               (Inl err, w') \<Rightarrow>
                 (PluginFailure \<lparr>PluginError_Code = ''provider_error'',
                    PluginError_Message = Error_text js err\<rparr>, Some (TeamMembersCall teamID), w')
             | (Inr members, w') \<Rightarrow>
                 (PluginResult (MemberList members), Some (TeamMembersCall teamID), w')))
      else
        (PluginFailure \<lparr>PluginError_Code = ''method_not_found'',
           PluginError_Message = ''Unknown method: '' @ Plugin_Method req\<rparr>, None, w))"

fun team_loop ::
  "'w GitHub \<Rightarrow> 'raw JSON \<Rightarrow> team_Provider \<Rightarrow> 'raw PluginRequest input list \<Rightarrow> 'w
    \<Rightarrow> (team_Provider, PluginResponse) round list \<times> 'w" where
  "team_loop gh js provider [] w = ([], w)"
| "team_loop gh js provider (DecodeError text # rest) w =
     (if text = ''EOF'' then ([], w) else team_loop gh js provider rest w)"
| "team_loop gh js provider (Request req # rest) w =
     (let (response, invoked, w1) = handleRequest gh js provider req w;
          (rs, w') = team_loop gh js provider rest w1
      in (\<lparr>round_provider = Some provider, round_response = response, round_call = invoked\<rparr> # rs,
          w'))"

datatype 'a exit = Fatal string | Returned 'a

definition team_main ::
  "'w GitHub \<Rightarrow> 'raw JSON \<Rightarrow> string \<Rightarrow> 'raw PluginRequest input list \<Rightarrow> 'w
    \<Rightarrow> (PluginResponse stdout list \<times> 'w) exit" where
  "team_main gh js configJSON inputs w =
     (if configJSON = [] then Fatal ''OPSORCH_TEAM_CONFIG environment variable is required''
      else
        (case Unmarshal_Config js configJSON of
           Inl err \<Rightarrow> Fatal (''Failed to parse config: '' @ Error_text js err)
         | Inr config \<Rightarrow>
            (case team_New config of
               Inl err \<Rightarrow> Fatal (''Failed to create GitHub team provider: '' @ Error_text js err)
             | Inr provider \<Rightarrow>
                (let (rounds, w') = team_loop gh js provider inputs w
                 in Returned (map (\<lambda>r. Encode (round_response r)) rounds, w')))))"

text \<open>The state machine in the words of the specification: the adapter that a bridge
  holds after a sequence of requests is the one built from the first of them whose
  configuration validates, and there is none while no configuration has validated.\<close>

definition adapter_after :: "((string \<rightharpoonup> any) \<Rightarrow> error + 'p) \<Rightarrow> 'raw rpcRequest list \<Rightarrow> 'p option" where
  "adapter_after new reqs =
     (case find (\<lambda>req. \<not> isl (new (rpc_Config req))) reqs of
        None \<Rightarrow> None
      | Some req \<Rightarrow> Some (projr (new (rpc_Config req))))"

section \<open>An example upstream\<close>

text \<open>A small upstream for evaluating the adapters: its state counts the calls made.
  The repository holds seven issues, the second and the fifth of them pull requests, and
  seven workflow runs; a list call answers with the first page of the size asked for. The
  team has three members, and the lookup of the user \<^verbatim>\<open>bob\<close> fails.\<close>

definition example_user :: "string \<Rightarrow> User" where
  "example_user login =
     \<lparr>User_Login = login, User_ID = 7, User_AvatarURL = [], User_HTMLURL = [],
      User_SiteAdmin = False, User_Type = ''User'', User_Name = ''Name of '' @ login,
      User_Email = login @ ''@example.org'', User_Company = [], User_Location = [],
      User_Bio = [], User_Blog = [], User_TwitterUsername = [], User_PublicRepos = 0,
      User_Followers = 0, User_Following = 0\<rparr>"

definition example_issue :: "int \<Rightarrow> bool \<Rightarrow> Issue" where
  "example_issue n pr =
     \<lparr>Issue_Number = n, Issue_Title = ''Title'', Issue_Body = [], Issue_State = ''open'',
      Issue_HTMLURL = [], Issue_CreatedAt = 1, Issue_UpdatedAt = 2, Issue_Assignees = [],
      Issue_User = None, Issue_Labels = [], Issue_Milestone = None,
      Issue_PullRequestLinks = (if pr then Some \<lparr>PullRequestLinks_URL = []\<rparr> else None)\<rparr>"

definition example_issues :: "Issue list" where
  "example_issues =
     [example_issue 1 False, example_issue 2 True, example_issue 3 False, example_issue 4 False,
      example_issue 5 True, example_issue 6 False, example_issue 7 False]"

definition example_run :: "int \<Rightarrow> WorkflowRun" where
  "example_run n =
     \<lparr>Run_ID = n, Run_Name = ''Build'', Run_Status = ''completed'', Run_Conclusion = ''success'',
      Run_HTMLURL = [], Run_HeadBranch = ''main'', Run_HeadSHA = ''0123456789abcdef'',
      Run_CreatedAt = 1, Run_UpdatedAt = 2, Run_Actor = None, Run_HeadCommit = None\<rparr>"

definition example_runs :: "WorkflowRun list" where
  "example_runs = map example_run [1, 2, 3, 4, 5, 6, 7]"

definition example_gh :: "nat GitHub" where
  "example_gh =
     \<lparr>Issues_ListByRepo = (\<lambda>c owner repo opts w.
        (Inr (take (nat (IssueList_PerPage opts)) example_issues), Suc w)),
      Issues_Get = (\<lambda>c owner repo n w. (Inr (example_issue n False), Suc w)),
      Issues_Create = (\<lambda>c owner repo r w. (Inr (example_issue 8 False), Suc w)),
      Issues_Edit = (\<lambda>c owner repo n r w. (Inr (example_issue n False), Suc w)),
      Actions_ListRepositoryWorkflowRuns = (\<lambda>c owner repo opts w.
        (Inr (take (nat (RunList_PerPage opts)) example_runs), Suc w)),
      Actions_GetWorkflowRunByID = (\<lambda>c owner repo n w. (Inr (example_run n), Suc w)),
      Teams_ListTeams = (\<lambda>c org perPage w. (Inr [], Suc w)),
      Teams_GetTeamBySlug = (\<lambda>c org slug w. (Inl (ErrorResponse 404 ''Not Found''), Suc w)),
      Teams_GetTeamByID = (\<lambda>c orgID tid w. (Inl (ErrorResponse 404 ''Not Found''), Suc w)),
      Teams_ListTeamMembersByID = (\<lambda>c orgID tid perPage w.
        (Inr [example_user ''alice'', example_user ''bob'', example_user ''carol''], Suc w)),
      Teams_GetTeamMembershipByID = (\<lambda>c orgID tid login w.
        (Inr (Some \<lparr>Membership_Role = (if login = ''alice'' then ''maintainer'' else ''member'')\<rparr>),
         Suc w)),
      Organizations_Get = (\<lambda>c org w. (Inr \<lparr>Organization_ID = 1\<rparr>, Suc w)),
      Users_Get = (\<lambda>c login w.
        (if login = ''bob'' then Inl (ErrorResponse 404 ''Not Found'')
         else Inr (example_user login), Suc w))\<rparr>"

definition example_js :: "string JSON" where
  "example_js =
     \<lparr>Unmarshal_TicketQuery = (\<lambda>raw. Inl (Errorf ''unexpected end of JSON input'')),
      Unmarshal_CreateTicketInput = (\<lambda>raw. Inl (Errorf ''unexpected end of JSON input'')),
      Unmarshal_UpdatePayload = (\<lambda>raw. Inl (Errorf ''unexpected end of JSON input'')),
      Unmarshal_DeploymentQuery = (\<lambda>raw. Inl (Errorf ''unexpected end of JSON input'')),
      Unmarshal_TeamQuery = (\<lambda>raw. Inl (Errorf ''unexpected end of JSON input'')),
      Unmarshal_ID = (\<lambda>raw. Inr raw),
      Unmarshal_TeamID = (\<lambda>raw. Inr raw),
      Unmarshal_Config = (\<lambda>text. Inl (Errorf ''unexpected end of JSON input'')),
      OpsOrchError_Error = (\<lambda>code message. code @ '': '' @ message)\<rparr>"

definition example_ticket_provider :: ticket_Provider where
  "example_ticket_provider =
     \<lparr>ticket_client = NewTokenClient ''t'',
      ticket_config = \<lparr>ticket_Token = ''t'', ticket_Owner = ''o'', ticket_Repo = ''r'',
        ticket_DefaultState = ''open''\<rparr>\<rparr>"

definition example_deployment_provider :: deployment_Provider where
  "example_deployment_provider =
     \<lparr>deployment_client = NewTokenClient ''t'',
      deployment_config = \<lparr>deployment_Token = ''t'', deployment_Owner = ''o'',
        deployment_Repo = ''r''\<rparr>\<rparr>"

definition example_team_provider :: team_Provider where
  "example_team_provider =
     \<lparr>team_client = NewTokenClient ''t'',
      team_config = \<lparr>team_Token = ''t'', team_Organization = ''org''\<rparr>\<rparr>"

definition example_ticket_query :: "int \<Rightarrow> TicketQuery" where
  "example_ticket_query limit =
     \<lparr>TicketQuery_Statuses = [],
      TicketQuery_Scope = \<lparr>Scope_Service = [], Scope_Team = [], Scope_Environment = []\<rparr>,
      TicketQuery_Limit = limit, TicketQuery_Metadata = Map.empty\<rparr>"

definition example_deployment_query :: "int \<Rightarrow> DeploymentQuery" where
  "example_deployment_query limit =
     \<lparr>DeploymentQuery_Statuses = [],
      DeploymentQuery_Scope = \<lparr>Scope_Service = [], Scope_Team = [], Scope_Environment = []\<rparr>,
      DeploymentQuery_Limit = limit, DeploymentQuery_Metadata = Map.empty\<rparr>"

definition example_update :: "string \<Rightarrow> UpdateTicketInput" where
  "example_update status =
     \<lparr>Update_Title = None, Update_Description = None, Update_Status = Some status,
      Update_Assignees = None\<rparr>"

definition example_members :: "User list" where
  "example_members = [example_user ''alice'', example_user ''bob'', example_user ''carol'']"

definition example_request :: "string \<Rightarrow> (string \<rightharpoonup> any) \<Rightarrow> string rpcRequest" where
  "example_request method cfg = \<lparr>rpc_Method = method, rpc_Config = cfg, rpc_Payload = ''12''\<rparr>"

definition example_config :: "string \<Rightarrow> (string \<rightharpoonup> any)" where
  "example_config token =
     [''token'' \<mapsto> AString token, ''owner'' \<mapsto> AString ''o'', ''repo'' \<mapsto> AString ''r'']"

definition example_plugin_request :: "string \<Rightarrow> string PluginRequest" where
  "example_plugin_request method = \<lparr>Plugin_Method = method, Plugin_Params = ''12''\<rparr>"

section \<open>Properties\<close>

subsection \<open>Evaluation of the string functions\<close>

lemmas string_eval = ToLower_def lower_char_def char_of_def bit_iff_odd

lemma Contains_sublist: "Contains s substr \<longleftrightarrow> sublist substr s"
  by (induction s) (auto simp: sublist_Cons_right)

lemma firstMatch_find: "firstMatch text envs = find (\<lambda>p. sublist p text) envs"
  by (induction envs) (simp_all add: Contains_sublist)

subsection \<open>Deployment status table\<close>

text \<open>
  Claim C1. The deployment status normaliser agrees with the ten-row table on every pair
  of status and conclusion: \<^verbatim>\<open>queued\<close> gives \<^verbatim>\<open>queued\<close>, \<^verbatim>\<open>in_progress\<close> gives
  \<^verbatim>\<open>running\<close>, \<^verbatim>\<open>completed\<close> gives the canonical status of its conclusion and
  \<^verbatim>\<open>failed\<close> for any conclusion not listed, and any other status is returned raw. The rows
  are matched on the lower-cased inputs, and the outputs are the lowercase literals of
  the table.
\<close>

theorem deployment_normalizeStatus_table:
  "deployment_normalizeStatus status conclusion = table_lookup status_table status conclusion
   \<and> length status_table = 10"
  by (simp add: deployment_normalizeStatus_def status_table_def Let_def)

subsection \<open>Environment inference\<close>

text \<open>
  Claim C2. Environment inference is a function of name and branch that returns the first
  pattern of the ordered list occurring in the name ignoring case, else the first
  occurring in the branch, else \<^verbatim>\<open>production\<close> for branch \<^verbatim>\<open>main\<close> or \<^verbatim>\<open>master\<close> and
  \<^verbatim>\<open>development\<close> for \<^verbatim>\<open>develop\<close> or \<^verbatim>\<open>dev\<close>, else \<^verbatim>\<open>development\<close>; and the four
  literal cases of the specification evaluate as stated.
\<close>

theorem extractEnvironment_spec:
  "extractEnvironment name branch = infer_environment name branch
   \<and> extractEnvironment ''Deploy to Production'' ''main'' = ''prod''
   \<and> extractEnvironment ''Build'' ''main'' = ''production''
   \<and> extractEnvironment ''Build'' ''develop'' = ''dev''
   \<and> extractEnvironment ''Build'' ''feature/xyz'' = ''development''"
proof -
  have general: "extractEnvironment name branch = infer_environment name branch"
    unfolding extractEnvironment_def infer_environment_def occurs_in_def firstMatch_find Let_def
    by (simp split: option.split)
  have c1: "extractEnvironment ''Deploy to Production'' ''main'' = ''prod''"
    by (simp add: extractEnvironment_def envPatterns_def string_eval)
  have c2: "extractEnvironment ''Build'' ''main'' = ''production''"
    by (simp add: extractEnvironment_def envPatterns_def string_eval)
  have c3: "extractEnvironment ''Build'' ''develop'' = ''dev''"
    by (simp add: extractEnvironment_def envPatterns_def string_eval)
  have c4: "extractEnvironment ''Build'' ''feature/xyz'' = ''development''"
    by (simp add: extractEnvironment_def envPatterns_def string_eval)
  from general c1 c2 c3 c4 show ?thesis by blast
qed

subsection \<open>Ticket status and team role\<close>

lemma of_char_lower_char:
  "(of_char (lower_char c) :: nat) =
     (if 65 \<le> (of_char c :: nat) \<and> (of_char c :: nat) \<le> 90 then of_char c + 32 else of_char c)"
  by (simp add: lower_char_def less_eq_char_def)

lemma lower_char_idem: "lower_char (lower_char c) = lower_char c"
  by (rule of_char_eqI [where 'a = nat]) (simp add: of_char_lower_char)

lemma ToLower_idem: "ToLower (ToLower s) = ToLower s"
  by (simp add: ToLower_def lower_char_idem)

lemma ToLower_literals:
  "ToLower ''open'' = ''open''" "ToLower ''closed'' = ''closed''"
  "ToLower ''owner'' = ''owner''" "ToLower ''member'' = ''member''"
  by (simp_all add: string_eval)

lemma ticket_normalizeStatus_idem:
  "ticket_normalizeStatus (ticket_normalizeStatus s) = ticket_normalizeStatus s"
  by (simp add: ticket_normalizeStatus_def Let_def ToLower_literals)

lemma normalizeRole_twice: "normalizeRole (normalizeRole r) = ''member''"
  by (simp add: normalizeRole_def Let_def ToLower_literals)

text \<open>
  Claim C4, as the code has it. Ticket status normalisation is idempotent, and it is
  case-insensitive on the inputs that are \<^verbatim>\<open>open\<close> or \<^verbatim>\<open>closed\<close> ignoring case: any
  other input is returned as it was written, so two spellings of it give two results
  (equal up to letter case). Team role normalisation is case-insensitive; applied twice it
  always gives \<^verbatim>\<open>member\<close>, so it is idempotent on every input except the spellings of
  \<^verbatim>\<open>maintainer\<close>.
\<close>

theorem normalizers_idempotent_case_insensitive:
  "ticket_normalizeStatus (ticket_normalizeStatus s) = ticket_normalizeStatus s
   \<and> (ToLower s = ToLower s' \<longrightarrow>
        ToLower (ticket_normalizeStatus s) = ToLower (ticket_normalizeStatus s')
        \<and> (ToLower s \<in> {''open'', ''closed''} \<longrightarrow>
             ticket_normalizeStatus s = ticket_normalizeStatus s'))
   \<and> (ToLower r = ToLower r' \<longrightarrow> normalizeRole r = normalizeRole r')
   \<and> normalizeRole (normalizeRole r) = ''member''
   \<and> (ToLower r \<noteq> ''maintainer'' \<longrightarrow> normalizeRole (normalizeRole r) = normalizeRole r)"
proof -
  have casefold: "ToLower (ticket_normalizeStatus s) = ToLower (ticket_normalizeStatus s')"
    if "ToLower s = ToLower s'"
    using that by (simp add: ticket_normalizeStatus_def Let_def ToLower_literals)
  have exact: "ticket_normalizeStatus s = ticket_normalizeStatus s'"
    if "ToLower s = ToLower s'" "ToLower s \<in> {''open'', ''closed''}"
    using that by (auto simp: ticket_normalizeStatus_def Let_def)
  have role: "normalizeRole r = normalizeRole r'" if "ToLower r = ToLower r'"
    using that by (simp add: normalizeRole_def)
  have role_idem: "normalizeRole (normalizeRole r) = normalizeRole r"
    if "ToLower r \<noteq> ''maintainer''"
    using that by (simp add: normalizeRole_twice) (simp add: normalizeRole_def Let_def)
  from casefold exact role role_idem show ?thesis
    by (simp add: ticket_normalizeStatus_idem normalizeRole_twice)
qed

theorem normalizers_idempotent_case_insensitive_witness:
  "ToLower ''OPEN'' = ToLower ''Open'' \<and> ToLower ''OPEN'' \<in> {''open'', ''closed''}
   \<and> ticket_normalizeStatus ''OPEN'' = ticket_normalizeStatus ''Open''
   \<and> ToLower ''Member'' = ToLower ''MEMBER'' \<and> ToLower ''Member'' \<noteq> ''maintainer''
   \<and> normalizeRole ''Member'' = normalizeRole ''MEMBER''
   \<and> normalizeRole (normalizeRole ''Member'') = normalizeRole ''Member''"
proof -
  have h1: "ToLower ''OPEN'' = ToLower ''Open''" by (simp add: string_eval)
  have h2: "ToLower ''OPEN'' \<in> {''open'', ''closed''}" by (simp add: string_eval)
  have h3: "ToLower ''Member'' = ToLower ''MEMBER''" by (simp add: string_eval)
  have h4: "ToLower ''Member'' \<noteq> ''maintainer''" by (simp add: string_eval)
  from h1 h2 h3 h4
    normalizers_idempotent_case_insensitive [of "''OPEN''" "''Open''" "''Member''" "''MEMBER''"]
  show ?thesis by blast
qed

text \<open>The claim as it was stated fails twice: two spellings of a status outside the
  table are not normalised to the same result, and the role normaliser applied to its own
  output \<^verbatim>\<open>owner\<close> gives \<^verbatim>\<open>member\<close>.\<close>

theorem normalizers_counterexample:
  "ToLower ''Pending'' = ToLower ''pending''
   \<and> ticket_normalizeStatus ''Pending'' \<noteq> ticket_normalizeStatus ''pending''
   \<and> normalizeRole (normalizeRole ''maintainer'') \<noteq> normalizeRole ''maintainer''"
  by (simp add: ticket_normalizeStatus_def normalizeRole_def Let_def string_eval)

subsection \<open>Configuration\<close>

text \<open>
  Claim C8. Construction looks at the required keys in the order token, owner, repo
  (ticket and deployment) or token, organization (team); at the first key that is
  missing or not a string it fails with the error naming that key, and since the
  constructors take no upstream state, nothing was sent before. When every required key
  is a string the adapter is built from their values, and the default state of the ticket
  adapter is the value of \<^verbatim>\<open>defaultState\<close> when that is a string and \<^verbatim>\<open>open\<close> otherwise.
\<close>

theorem New_validation_order:
  "ticket_New cfg =
     (case first_missing [''token'', ''owner'', ''repo''] cfg of
        Some k \<Rightarrow> Inl (Errorf (k @ '' is required''))
      | None \<Rightarrow>
          Inr \<lparr>ticket_client = NewTokenClient (string_at cfg ''token''),
               ticket_config = \<lparr>ticket_Token = string_at cfg ''token'',
                 ticket_Owner = string_at cfg ''owner'', ticket_Repo = string_at cfg ''repo'',
                 ticket_DefaultState =
                   (case cfg ''defaultState'' of Some (AString state) \<Rightarrow> state | _ \<Rightarrow> ''open'')\<rparr>\<rparr>)
   \<and> deployment_New cfg =
     (case first_missing [''token'', ''owner'', ''repo''] cfg of
        Some k \<Rightarrow> Inl (Errorf (k @ '' is required''))
      | None \<Rightarrow>
          Inr \<lparr>deployment_client = NewTokenClient (string_at cfg ''token''),
               deployment_config = \<lparr>deployment_Token = string_at cfg ''token'',
                 deployment_Owner = string_at cfg ''owner'',
                 deployment_Repo = string_at cfg ''repo''\<rparr>\<rparr>)
   \<and> team_New cfg =
     (case first_missing [''token'', ''organization''] cfg of
        Some k \<Rightarrow> Inl (Errorf (k @ '' is required''))
      | None \<Rightarrow>
          Inr \<lparr>team_client = NewTokenClient (string_at cfg ''token''),
               team_config = \<lparr>team_Token = string_at cfg ''token'',
                 team_Organization = string_at cfg ''organization''\<rparr>\<rparr>)"
proof -
  have default_state:
    "(case asString (cfg ''defaultState'') of Some state \<Rightarrow> state | None \<Rightarrow> ''open'') =
     (case cfg ''defaultState'' of Some (AString state) \<Rightarrow> state | _ \<Rightarrow> ''open'')"
    by (cases "cfg ''defaultState''") (simp_all split: any.split)
  have t: "ticket_New cfg =
     (case first_missing [''token'', ''owner'', ''repo''] cfg of
        Some k \<Rightarrow> Inl (Errorf (k @ '' is required''))
      | None \<Rightarrow>
          Inr \<lparr>ticket_client = NewTokenClient (string_at cfg ''token''),
               ticket_config = \<lparr>ticket_Token = string_at cfg ''token'',
                 ticket_Owner = string_at cfg ''owner'', ticket_Repo = string_at cfg ''repo'',
                 ticket_DefaultState =
                   (case cfg ''defaultState'' of Some (AString state) \<Rightarrow> state | _ \<Rightarrow> ''open'')\<rparr>\<rparr>)"
    unfolding ticket_New_def first_missing_def string_at_def Let_def default_state
    by (simp split: option.split)
  have d: "deployment_New cfg =
     (case first_missing [''token'', ''owner'', ''repo''] cfg of
        Some k \<Rightarrow> Inl (Errorf (k @ '' is required''))
      | None \<Rightarrow>
          Inr \<lparr>deployment_client = NewTokenClient (string_at cfg ''token''),
               deployment_config = \<lparr>deployment_Token = string_at cfg ''token'',
                 deployment_Owner = string_at cfg ''owner'',
                 deployment_Repo = string_at cfg ''repo''\<rparr>\<rparr>)"
    unfolding deployment_New_def first_missing_def string_at_def
    by (simp split: option.split)
  have m: "team_New cfg =
     (case first_missing [''token'', ''organization''] cfg of
        Some k \<Rightarrow> Inl (Errorf (k @ '' is required''))
      | None \<Rightarrow>
          Inr \<lparr>team_client = NewTokenClient (string_at cfg ''token''),
               team_config = \<lparr>team_Token = string_at cfg ''token'',
                 team_Organization = string_at cfg ''organization''\<rparr>\<rparr>)"
    unfolding team_New_def first_missing_def string_at_def
    by (simp split: option.split)
  from t d m show ?thesis by blast
qed

subsection \<open>Ticket queries\<close>

lemma ticket_collect_filter:
  "ticket_collect issues =
     map convertIssueToTicket (filter (\<lambda>issue. Issue_PullRequestLinks issue = None) issues)"
  by (induction issues) simp_all

text \<open>
  Claim C10. A ticket query answers with the conversions of exactly those issues of the
  upstream page that carry no pull-request links, in the order of the page: every record
  whose pull-request link field is set is skipped, so none of them is among the tickets.
\<close>

theorem ticket_Query_skips_pull_requests:
  "ticket_Query gh p query w =
     (case Issues_ListByRepo gh (ticket_client p) (ticket_Owner (ticket_config p))
             (ticket_Repo (ticket_config p)) (ticket_queryOptions query) w of
        (Inl err, w') \<Rightarrow> (Inl (ticket_wrapError err), w')
      | (Inr issues, w') \<Rightarrow>
          (Inr (map convertIssueToTicket
                 (filter (\<lambda>issue. Issue_PullRequestLinks issue = None) issues)), w'))"
  by (simp add: ticket_Query_def ticket_collect_filter split: prod.split sum.split)

lemma ticket_collect_example: "map Ticket_ID (ticket_collect example_issues) = [''1'', ''3'', ''4'', ''6'', ''7'']"
  apply (simp add: example_issues_def example_issue_def convertIssueToTicket_def FormatInt_def digit_char_def char_of_def bit_iff_odd)
  done

lemma length_ticket_collect: "length (ticket_collect issues) \<le> length issues"
  by (induction issues) auto

lemma length_deployment_collect: "length (deployment_collect p query runs) \<le> length runs"
  by (induction runs) (auto simp: Let_def)

lemma ticket_PerPage:
  "IssueList_PerPage (ticket_queryOptions query) =
     (if 0 < TicketQuery_Limit query \<and> TicketQuery_Limit query < 100
      then TicketQuery_Limit query else 100)"
  by (simp add: ticket_queryOptions_def Let_def split: option.split)

lemma deployment_PerPage:
  "RunList_PerPage (deployment_queryOptions query) =
     (if 0 < DeploymentQuery_Limit query \<and> DeploymentQuery_Limit query < 100
      then DeploymentQuery_Limit query else 100)"
  by (simp add: deployment_queryOptions_def Let_def split: option.split)


text \<open>
  Claim C5, as the code has it. The page size of the list call of a ticket or deployment
  query is 100, and it is the limit of the caller exactly when that limit is greater
  than 0 and less than 100 (so a limit of 1 gives pages of one record). The query makes
  the one list call and nothing else, so when the upstream answers with at most a page of
  the size asked for, the query returns at most that many results: at most 5 for a limit
  of 5, however many records exist upstream.
\<close>

theorem query_page_size:
  assumes "Issues_ListByRepo gh (ticket_client tp) (ticket_Owner (ticket_config tp))
             (ticket_Repo (ticket_config tp)) (ticket_queryOptions tq) w = (Inr issues, w1)"
    and "int (length issues) \<le> IssueList_PerPage (ticket_queryOptions tq)"
    and "Actions_ListRepositoryWorkflowRuns gh (deployment_client dp)
             (deployment_Owner (deployment_config dp)) (deployment_Repo (deployment_config dp))
             (deployment_queryOptions dq) w = (Inr runs, w2)"
    and "int (length runs) \<le> RunList_PerPage (deployment_queryOptions dq)"
  shows "IssueList_PerPage (ticket_queryOptions tq) =
           (if 0 < TicketQuery_Limit tq \<and> TicketQuery_Limit tq < 100
            then TicketQuery_Limit tq else 100)
       \<and> RunList_PerPage (deployment_queryOptions dq) =
           (if 0 < DeploymentQuery_Limit dq \<and> DeploymentQuery_Limit dq < 100
            then DeploymentQuery_Limit dq else 100)
       \<and> ticket_Query gh tp tq w = (Inr (ticket_collect issues), w1)
       \<and> int (length (ticket_collect issues)) \<le> IssueList_PerPage (ticket_queryOptions tq)
       \<and> (TicketQuery_Limit tq = 5 \<longrightarrow> length (ticket_collect issues) \<le> 5)
       \<and> deployment_Query gh dp dq w = (Inr (deployment_collect dp dq runs), w2)
       \<and> int (length (deployment_collect dp dq runs)) \<le> RunList_PerPage (deployment_queryOptions dq)
       \<and> (DeploymentQuery_Limit dq = 5 \<longrightarrow> length (deployment_collect dp dq runs) \<le> 5)"
proof -
  have t1: "ticket_Query gh tp tq w = (Inr (ticket_collect issues), w1)"
    using assms(1) by (simp add: ticket_Query_def)
  have t2: "int (length (ticket_collect issues)) \<le> IssueList_PerPage (ticket_queryOptions tq)"
    using assms(2) length_ticket_collect [of issues] by linarith
  have t3: "length (ticket_collect issues) \<le> 5" if "TicketQuery_Limit tq = 5"
    using t2 that by (simp add: ticket_PerPage)
  have d1: "deployment_Query gh dp dq w = (Inr (deployment_collect dp dq runs), w2)"
    using assms(3) by (simp add: deployment_Query_def)
  have d2: "int (length (deployment_collect dp dq runs))
              \<le> RunList_PerPage (deployment_queryOptions dq)"
    using assms(4) length_deployment_collect [of dp dq runs] by linarith
  have d3: "length (deployment_collect dp dq runs) \<le> 5" if "DeploymentQuery_Limit dq = 5"
    using d2 that by (simp add: deployment_PerPage)
  from t1 t2 t3 d1 d2 d3 show ?thesis
    using ticket_PerPage [of tq] deployment_PerPage [of dq] by blast
qed

lemma example_issue_page:
  "Issues_ListByRepo example_gh c owner repo opts w =
     (Inr (take (nat (IssueList_PerPage opts)) example_issues), Suc w)"
  by (simp add: example_gh_def)

lemma example_run_page:
  "Actions_ListRepositoryWorkflowRuns example_gh c owner repo opts w =
     (Inr (take (nat (RunList_PerPage opts)) example_runs), Suc w)"
  by (simp add: example_gh_def)

theorem query_page_size_witness:
  "ticket_Query example_gh example_ticket_provider (example_ticket_query 5) 0 =
     (Inr (ticket_collect (take 5 example_issues)), 1)
   \<and> length (take 5 example_issues) = 5
   \<and> length (ticket_collect (take 5 example_issues)) \<le> 5
   \<and> deployment_Query example_gh example_deployment_provider (example_deployment_query 5) 0 =
     (Inr (deployment_collect example_deployment_provider (example_deployment_query 5)
            (take 5 example_runs)), 1)
   \<and> length (deployment_collect example_deployment_provider (example_deployment_query 5)
        (take 5 example_runs)) \<le> 5"
proof -
  have pt: "IssueList_PerPage (ticket_queryOptions (example_ticket_query 5)) = 5"
    by (simp add: ticket_PerPage example_ticket_query_def)
  have pd: "RunList_PerPage (deployment_queryOptions (example_deployment_query 5)) = 5"
    by (simp add: deployment_PerPage example_deployment_query_def)
  have h1: "Issues_ListByRepo example_gh (ticket_client example_ticket_provider)
              (ticket_Owner (ticket_config example_ticket_provider))
              (ticket_Repo (ticket_config example_ticket_provider))
              (ticket_queryOptions (example_ticket_query 5)) 0 =
            (Inr (take 5 example_issues), 1)"
    by (simp add: example_issue_page pt)
  have h2: "int (length (take 5 example_issues))
              \<le> IssueList_PerPage (ticket_queryOptions (example_ticket_query 5))"
    by (simp add: pt)
  have h3: "Actions_ListRepositoryWorkflowRuns example_gh
              (deployment_client example_deployment_provider)
              (deployment_Owner (deployment_config example_deployment_provider))
              (deployment_Repo (deployment_config example_deployment_provider))
              (deployment_queryOptions (example_deployment_query 5)) 0 =
            (Inr (take 5 example_runs), 1)"
    by (simp add: example_run_page pd)
  have h4: "int (length (take 5 example_runs))
              \<le> RunList_PerPage (deployment_queryOptions (example_deployment_query 5))"
    by (simp add: pd)
  have l: "length (take 5 example_issues) = 5"
    by (simp add: example_issues_def)
  have q5: "TicketQuery_Limit (example_ticket_query 5) = 5"
    "DeploymentQuery_Limit (example_deployment_query 5) = 5"
    by (simp_all add: example_ticket_query_def example_deployment_query_def)
  from query_page_size [OF h1 h2 h3 h4] l q5 show ?thesis by blast
qed

text \<open>With a limit of 1, which is not strictly between 1 and 100, the page size is
  1 and not 100.\<close>

theorem query_page_size_counterexample:
  "TicketQuery_Limit (example_ticket_query 1) = 1
   \<and> IssueList_PerPage (ticket_queryOptions (example_ticket_query 1)) = 1
   \<and> IssueList_PerPage (ticket_queryOptions (example_ticket_query 1)) \<noteq>
       (if 1 < TicketQuery_Limit (example_ticket_query 1)
           \<and> TicketQuery_Limit (example_ticket_query 1) < 100
        then TicketQuery_Limit (example_ticket_query 1) else 100)"
  by (simp add: ticket_PerPage example_ticket_query_def)

subsection \<open>Ticket updates\<close>

text \<open>
  Claim C3, as the code has it. When the status of an update is present, not empty and,
  ignoring case, none of \<^verbatim>\<open>open\<close>, \<^verbatim>\<open>new\<close>, \<^verbatim>\<open>in_progress\<close>, \<^verbatim>\<open>closed\<close>,
  \<^verbatim>\<open>resolved\<close>, \<^verbatim>\<open>done\<close>, the edit request carries no state at all, and this request
  is the one handed to the upstream edit call. On a read, an upstream state that is not
  \<^verbatim>\<open>open\<close> or \<^verbatim>\<open>closed\<close> ignoring case becomes the status of the ticket as it was
  written.
\<close>

theorem ticket_update_status_unset:
  "(Update_Status input = Some status \<and> status \<noteq> []
      \<and> ToLower status \<notin> {''open'', ''new'', ''in_progress'', ''closed'', ''resolved'', ''done''}
      \<longrightarrow> IssueRequest_State (ticket_updateRequest input) = None)
   \<and> (ParseInt ident = Some n \<longrightarrow>
        ticket_Update gh p ident input w =
          (case Issues_Edit gh (ticket_client p) (ticket_Owner (ticket_config p))
                  (ticket_Repo (ticket_config p)) n (ticket_updateRequest input) w of
             (Inl err, w') \<Rightarrow> (Inl (ticket_wrapError err), w')
           | (Inr issue, w') \<Rightarrow> (Inr (convertIssueToTicket issue), w')))
   \<and> (ToLower (Issue_State issue) \<notin> {''open'', ''closed''}
        \<longrightarrow> Ticket_Status (convertIssueToTicket issue) = Issue_State issue)"
  by (auto simp: ticket_updateRequest_def ticket_Update_def convertIssueToTicket_def
      ticket_normalizeStatus_def Let_def)

lemma ParseInt_12: "ParseInt ''12'' = Some 12"
  by (simp add: ParseInt_def digit_val_def less_eq_char_def)

theorem ticket_update_status_unset_witness:
  "Update_Status (example_update ''Blocked'') = Some ''Blocked'' \<and> ''Blocked'' \<noteq> []
   \<and> ToLower ''Blocked'' \<notin> {''open'', ''new'', ''in_progress'', ''closed'', ''resolved'', ''done''}
   \<and> IssueRequest_State (ticket_updateRequest (example_update ''Blocked'')) = None
   \<and> ParseInt ''12'' = Some 12
   \<and> ticket_Update example_gh example_ticket_provider ''12'' (example_update ''Blocked'') 0 =
        (Inr (convertIssueToTicket (example_issue 12 False)), 1)
   \<and> ToLower (Issue_State ((example_issue 3 False)\<lparr>Issue_State := ''Locked''\<rparr>)) \<notin> {''open'', ''closed''}
   \<and> Ticket_Status (convertIssueToTicket ((example_issue 3 False)\<lparr>Issue_State := ''Locked''\<rparr>)) = ''Locked''"
proof -
  have h1: "Update_Status (example_update ''Blocked'') = Some ''Blocked'' \<and> ''Blocked'' \<noteq> []
     \<and> ToLower ''Blocked'' \<notin> {''open'', ''new'', ''in_progress'', ''closed'', ''resolved'', ''done''}"
    by (simp add: example_update_def string_eval)
  have h2: "ParseInt ''12'' = Some 12"
    by (rule ParseInt_12)
  have h3: "ToLower (Issue_State ((example_issue 3 False)\<lparr>Issue_State := ''Locked''\<rparr>))
              \<notin> {''open'', ''closed''}"
    by (simp add: string_eval)
  have e: "Issues_Edit example_gh c owner repo n r w = (Inr (example_issue n False), Suc w)"
    for c owner repo n r w
    by (simp add: example_gh_def)
  from h1 h2 h3
    ticket_update_status_unset [of "example_update ''Blocked''" "''Blocked''" "''12''" 12
      example_gh example_ticket_provider 0 "(example_issue 3 False)\<lparr>Issue_State := ''Locked''\<rparr>"]
  show ?thesis by (simp add: e)
qed

text \<open>The status \<^verbatim>\<open>Blocked\<close> is not sent lower-cased: nothing is sent.\<close>

theorem ticket_update_status_counterexample:
  "Update_Status (example_update ''Blocked'') = Some ''Blocked'' \<and> ''Blocked'' \<noteq> []
   \<and> ToLower ''Blocked'' \<notin> {''open'', ''new'', ''in_progress'', ''closed'', ''resolved'', ''done''}
   \<and> IssueRequest_State (ticket_updateRequest (example_update ''Blocked''))
        \<noteq> Some (ToLower ''Blocked'')"
  by (simp add: example_update_def ticket_updateRequest_def Let_def string_eval)

subsection \<open>Team members\<close>

lemma members_loop_append:
  "members_loop gh p orgID tid (xs @ ys) w =
     (let (r1, w1) = members_loop gh p orgID tid xs w;
          (r2, w2) = members_loop gh p orgID tid ys w1
      in (r1 @ r2, w2))"
  by (induction xs arbitrary: w) (auto split: prod.split sum.split)

lemma members_loop_logins:
  "map TeamMember_ID (fst (members_loop gh p orgID tid members w)) = map User_Login members"
  by (induction members arbitrary: w)
     (simp_all add: case_prod_beta basicMember_def detailedMember_def Let_def split: sum.split)

lemma members_loop_length:
  "length (fst (members_loop gh p orgID tid members w)) = length members"
  using members_loop_logins [of gh p orgID tid members w, THEN arg_cong, of length] by simp

lemma members_loop_failed_head:
  assumes "isl (fst (Users_Get gh (team_client p) (User_Login member) w))"
  shows "\<exists>rest. fst (members_loop gh p orgID tid (member # members) w) = basicMember member # rest"
  using assms by (cases "fst (Users_Get gh (team_client p) (User_Login member) w)")
    (simp_all add: case_prod_beta)

lemma members_loop_failed:
  assumes "i < length members"
    and "isl (fst (Users_Get gh (team_client p) (User_Login (members ! i))
                (snd (members_loop gh p orgID tid (take i members) w))))"
  shows "fst (members_loop gh p orgID tid members w) ! i = basicMember (members ! i)"
proof -
  let ?pre = "members_loop gh p orgID tid (take i members) w"
  have split: "members = take i members @ (members ! i) # drop (Suc i) members"
    using assms(1) by (simp add: id_take_nth_drop)
  obtain rest where rest:
    "fst (members_loop gh p orgID tid ((members ! i) # drop (Suc i) members) (snd ?pre)) =
       basicMember (members ! i) # rest"
    using members_loop_failed_head [OF assms(2)] by blast
  have "fst (members_loop gh p orgID tid
               (take i members @ (members ! i) # drop (Suc i) members) w) =
        fst ?pre @ basicMember (members ! i) # rest"
    unfolding members_loop_append using rest by (simp add: case_prod_beta)
  moreover have "length (fst ?pre) = i"
    using assms(1) by (simp add: members_loop_length)
  ultimately have "fst (members_loop gh p orgID tid
               (take i members @ (members ! i) # drop (Suc i) members) w) ! i
        = basicMember (members ! i)"
    by (simp add: nth_append)
  with split show ?thesis by simp
qed

text \<open>
  Claim C9. When the team is resolved and the organisation and the member list are
  fetched, the members call succeeds whatever the lookups of the users do: the result has
  one entry per member of the list, in its order and under its login, and a member whose
  user lookup fails (in the state the calls before it left) is the entry with the basic
  fields only: id, name and handle are the login, the role is \<^verbatim>\<open>member\<close>, there is no
  email, and the metadata has the five basic keys.
\<close>

theorem Members_degrades:
  assumes resolve:
      "ParseInt teamID = Some tid \<and> w0 = w
       \<or> ParseInt teamID = None
         \<and> (\<exists>team. Teams_GetTeamBySlug gh (team_client p) (team_Organization (team_config p))
                      teamID w = (Inr team, w0) \<and> GHTeam_ID team = tid)"
    and org: "Organizations_Get gh (team_client p) (team_Organization (team_config p)) w0 =
                (Inr org, w1)"
    and list: "Teams_ListTeamMembersByID gh (team_client p) (Organization_ID org) tid 100 w1 =
                (Inr members, w2)"
  shows "\<exists>result w'.
           team_Members gh p teamID w = (Inr result, w')
         \<and> length result = length members
         \<and> map TeamMember_ID result = map User_Login members
         \<and> (\<forall>i < length members.
              isl (fst (Users_Get gh (team_client p) (User_Login (members ! i))
                     (snd (members_loop gh p (Organization_ID org) tid (take i members) w2))))
              \<longrightarrow> result ! i = basicMember (members ! i)
                  \<and> TeamMember_Role (result ! i) = ''member''
                  \<and> TeamMember_ID (result ! i) = User_Login (members ! i)
                  \<and> TeamMember_Name (result ! i) = User_Login (members ! i)
                  \<and> TeamMember_Handle (result ! i) = User_Login (members ! i)
                  \<and> TeamMember_Email (result ! i) = []
                  \<and> dom (TeamMember_Metadata (result ! i)) =
                      {''github_id'', ''avatar_url'', ''html_url'', ''site_admin'', ''type''})"
proof -
  let ?loop = "members_loop gh p (Organization_ID org) tid members w2"
  have of_tid: "members_of gh p tid w0 = (Inr (fst ?loop), snd ?loop)"
    using org list by (simp add: members_of_def case_prod_beta)
  have call: "team_Members gh p teamID w = (Inr (fst ?loop), snd ?loop)"
    using resolve of_tid by (auto simp: team_Members_def)
  have basic: "fst ?loop ! i = basicMember (members ! i)"
    if "i < length members"
      "isl (fst (Users_Get gh (team_client p) (User_Login (members ! i))
              (snd (members_loop gh p (Organization_ID org) tid (take i members) w2))))" for i
    using that by (rule members_loop_failed)
  have shape: "TeamMember_Role (basicMember m) = ''member''
      \<and> TeamMember_ID (basicMember m) = User_Login m
      \<and> TeamMember_Name (basicMember m) = User_Login m
      \<and> TeamMember_Handle (basicMember m) = User_Login m
      \<and> TeamMember_Email (basicMember m) = []
      \<and> dom (TeamMember_Metadata (basicMember m)) =
          {''github_id'', ''avatar_url'', ''html_url'', ''site_admin'', ''type''}" for m
    by (auto simp: basicMember_def)
  show ?thesis
    using call basic shape members_loop_length [of gh p "Organization_ID org" tid members w2]
      members_loop_logins [of gh p "Organization_ID org" tid members w2]
    by (intro exI [of _ "fst ?loop"] exI [of _ "snd ?loop"]) simp
qed

lemma ParseInt_42: "ParseInt ''42'' = Some 42"
  by (simp add: ParseInt_def digit_val_def less_eq_char_def)

theorem Members_degrades_witness:
  "\<exists>result w'.
     team_Members example_gh example_team_provider ''42'' 0 = (Inr result, w')
     \<and> length result = 3
     \<and> map TeamMember_ID result = [''alice'', ''bob'', ''carol'']
     \<and> result ! 1 = basicMember (example_user ''bob'')
     \<and> TeamMember_Role (result ! 1) = ''member''"
proof -
  have h1: "ParseInt ''42'' = Some 42 \<and> (0::nat) = 0
     \<or> ParseInt ''42'' = None
       \<and> (\<exists>team. Teams_GetTeamBySlug example_gh (team_client example_team_provider)
                    (team_Organization (team_config example_team_provider)) ''42'' 0 =
                    (Inr team, 0) \<and> GHTeam_ID team = 42)"
    by (simp add: ParseInt_42)
  have h2: "Organizations_Get example_gh (team_client example_team_provider)
              (team_Organization (team_config example_team_provider)) 0 =
            (Inr \<lparr>Organization_ID = 1\<rparr>, 1)"
    by (simp add: example_gh_def)
  have h3: "Teams_ListTeamMembersByID example_gh (team_client example_team_provider)
              (Organization_ID \<lparr>Organization_ID = 1\<rparr>) 42 100 1 =
            (Inr example_members, 2)"
    by (simp add: example_gh_def example_members_def)
  have i: "1 < length example_members"
    by (simp add: example_members_def)
  have bob: "example_members ! 1 = example_user ''bob''"
    by (simp add: example_members_def)
  have get: "fst (Users_Get example_gh c ''bob'' w) = Inl (ErrorResponse 404 ''Not Found'')" for c w
    by (simp add: example_gh_def)
  have login: "User_Login (example_user ''bob'') = ''bob''"
    by (simp add: example_user_def)
  have fails: "isl (fst (Users_Get example_gh (team_client example_team_provider)
                 (User_Login (example_members ! 1))
                 (snd (members_loop example_gh example_team_provider
                         (Organization_ID \<lparr>Organization_ID = 1\<rparr>) 42
                         (take 1 example_members) 2))))"
    unfolding bob login get by simp
  have logins: "map User_Login example_members = [''alice'', ''bob'', ''carol'']"
    by (simp add: example_members_def example_user_def)
  have len: "length example_members = 3"
    by (simp add: example_members_def)
  from Members_degrades [OF h1 h2 h3] show ?thesis
  proof (elim exE conjE)
    fix result w'
    assume call: "team_Members example_gh example_team_provider ''42'' 0 = (Inr result, w')"
      and size: "length result = length example_members"
      and ids: "map TeamMember_ID result = map User_Login example_members"
      and degraded: "\<forall>i < length example_members.
        isl (fst (Users_Get example_gh (team_client example_team_provider)
               (User_Login (example_members ! i))
               (snd (members_loop example_gh example_team_provider
                       (Organization_ID \<lparr>Organization_ID = 1\<rparr>) 42
                       (take i example_members) 2))))
        \<longrightarrow> result ! i = basicMember (example_members ! i)
            \<and> TeamMember_Role (result ! i) = ''member''
            \<and> TeamMember_ID (result ! i) = User_Login (example_members ! i)
            \<and> TeamMember_Name (result ! i) = User_Login (example_members ! i)
            \<and> TeamMember_Handle (result ! i) = User_Login (example_members ! i)
            \<and> TeamMember_Email (result ! i) = []
            \<and> dom (TeamMember_Metadata (result ! i)) =
                {''github_id'', ''avatar_url'', ''html_url'', ''site_admin'', ''type''}"
    note one = degraded [rule_format, OF i fails]
    have r1: "length result = 3"
      unfolding size by (rule len)
    have r2: "map TeamMember_ID result = [''alice'', ''bob'', ''carol'']"
      unfolding ids by (rule logins)
    have r3: "result ! 1 = basicMember (example_user ''bob'')"
      using one [THEN conjunct1] unfolding bob .
    have r4: "TeamMember_Role (result ! 1) = ''member''"
      using one [THEN conjunct2, THEN conjunct1] .
    show ?thesis
      by (rule exI [of _ result], rule exI [of _ w']) (intro conjI call r1 r2 r3 r4)
  qed
qed

subsection \<open>The bridges\<close>

lemma rpc_step_uninitialized:
  "rpc_step new dispatch js None req w =
     (case new (rpc_Config req) of
        Inl err \<Rightarrow>
          (\<lparr>round_provider = None, round_response = rpc_Error (Error_text js err),
            round_call = None\<rparr>, w)
      | Inr p \<Rightarrow> rpc_step new dispatch js (Some p) req w)"
  by (simp add: rpc_step_def split: sum.split)

lemma rpc_step_ready:
  "rpc_step new dispatch js (Some p) req w =
     (case dispatch p req w of
        (response, invoked, w') \<Rightarrow>
          (\<lparr>round_provider = Some p, round_response = response, round_call = invoked\<rparr>, w'))"
  by (simp add: rpc_step_def)

lemma rpc_step_ready_provider:
  "round_provider (fst (rpc_step new dispatch js (Some p) req w)) = Some p"
  by (simp add: rpc_step_ready case_prod_beta)

lemma rpc_step_provider:
  "round_provider (fst (rpc_step new dispatch js st req w)) =
     (case st of
        Some p \<Rightarrow> Some p
      | None \<Rightarrow> adapter_after new [req])"
  by (cases st)
     (simp_all add: rpc_step_uninitialized rpc_step_ready_provider adapter_after_def
       split: sum.split)

lemma adapter_after_Cons:
  "adapter_after new (req # reqs) =
     (case adapter_after new [req] of Some p \<Rightarrow> Some p | None \<Rightarrow> adapter_after new reqs)"
  by (simp add: adapter_after_def)

lemma rpc_loop_providers:
  "map round_provider (fst (rpc_loop new dispatch js st (map Request reqs) w)) =
     map (\<lambda>n. case st of Some p \<Rightarrow> Some p | None \<Rightarrow> adapter_after new (take (Suc n) reqs))
       [0..<length reqs]"
proof (induction reqs arbitrary: st w)
  case Nil
  show ?case by simp
next
  case (Cons req reqs)
  let ?r = "fst (rpc_step new dispatch js st req w)"
  let ?w = "snd (rpc_step new dispatch js st req w)"
  have unfold: "fst (rpc_loop new dispatch js st (map Request (req # reqs)) w) =
      ?r # fst (rpc_loop new dispatch js (round_provider ?r) (map Request reqs) ?w)"
    by (simp add: case_prod_beta)
  have upt: "[0..<length (req # reqs)] = 0 # map Suc [0..<length reqs]"
    by (simp add: upt_conv_Cons map_Suc_upt del: upt_Suc)
  have tail: "(case round_provider ?r of Some p \<Rightarrow> Some p
                | None \<Rightarrow> adapter_after new (take (Suc n) reqs)) =
              (case st of Some p \<Rightarrow> Some p
                | None \<Rightarrow> adapter_after new (take (Suc (Suc n)) (req # reqs)))" for n
    by (cases st) (simp_all add: rpc_step_provider adapter_after_Cons [of new req "take (Suc n) reqs"])
  have head: "round_provider ?r =
      (case st of Some p \<Rightarrow> Some p | None \<Rightarrow> adapter_after new (take (Suc 0) (req # reqs)))"
    by (cases st) (simp_all add: rpc_step_provider)
  have "map round_provider (fst (rpc_loop new dispatch js st (map Request (req # reqs)) w)) =
      round_provider ?r #
      map (\<lambda>n. case round_provider ?r of Some p \<Rightarrow> Some p
                 | None \<Rightarrow> adapter_after new (take (Suc n) reqs)) [0..<length reqs]"
    unfolding unfold by (simp only: list.map Cons.IH)
  also have "\<dots> =
      (case st of Some p \<Rightarrow> Some p | None \<Rightarrow> adapter_after new (take (Suc 0) (req # reqs))) #
      map (\<lambda>n. case st of Some p \<Rightarrow> Some p
                 | None \<Rightarrow> adapter_after new (take (Suc (Suc n)) (req # reqs))) [0..<length reqs]"
    by (simp only: tail) (simp only: head)
  also have "\<dots> =
      map (\<lambda>n. case st of Some p \<Rightarrow> Some p
                 | None \<Rightarrow> adapter_after new (take (Suc n) (req # reqs))) [0..<length (req # reqs)]"
    unfolding upt by (simp only: list.map map_map comp_def)
  finally show ?case .
qed

text \<open>
  Claim C6. The ticket and the deployment bridge start without an adapter. A request
  that arrives while there is none has the adapter built from its configuration: when
  that fails the error is the response and there is still no adapter, so the next request
  tries again; when it succeeds the request is served by the new adapter, which is held
  from then on. A request that arrives while an adapter is held is served by that
  adapter, whatever configuration it carries, and the adapter stays. So after each
  request of a run the adapter held is the one built from the first request so far whose
  configuration validated.
\<close>

theorem bridge_two_states:
  "ticket_step gh js None req w =
     (case ticket_New (rpc_Config req) of
        Inl err \<Rightarrow>
          (\<lparr>round_provider = None, round_response = rpc_Error (Error_text js err),
            round_call = None\<rparr>, w)
      | Inr p \<Rightarrow> ticket_step gh js (Some p) req w)
   \<and> ticket_step gh js (Some tp) req w =
     (case ticket_dispatch gh js tp req w of
        (response, invoked, w') \<Rightarrow>
          (\<lparr>round_provider = Some tp, round_response = response, round_call = invoked\<rparr>, w'))
   \<and> map round_provider (fst (ticket_loop gh js None (map Request reqs) w)) =
       map (\<lambda>n. adapter_after ticket_New (take (Suc n) reqs)) [0..<length reqs]
   \<and> ticket_main gh js [prog] inputs w =
     (case ticket_loop gh js None inputs w of
        (rounds, w') \<Rightarrow> (map (\<lambda>r. Encode (round_response r)) rounds, w'))
   \<and> deployment_step gh js None req w =
     (case deployment_New (rpc_Config req) of
        Inl err \<Rightarrow>
          (\<lparr>round_provider = None, round_response = rpc_Error (Error_text js err),
            round_call = None\<rparr>, w)
      | Inr p \<Rightarrow> deployment_step gh js (Some p) req w)
   \<and> deployment_step gh js (Some dp) req w =
     (case deployment_dispatch gh js dp req w of
        (response, invoked, w') \<Rightarrow>
          (\<lparr>round_provider = Some dp, round_response = response, round_call = invoked\<rparr>, w'))
   \<and> map round_provider (fst (deployment_loop gh js None (map Request reqs) w)) =
       map (\<lambda>n. adapter_after deployment_New (take (Suc n) reqs)) [0..<length reqs]
   \<and> deployment_main gh js [prog] inputs w =
     (case deployment_loop gh js None inputs w of
        (rounds, w') \<Rightarrow> (map (\<lambda>r. Encode (round_response r)) rounds, w'))"
proof -
  have t1: "ticket_step gh js None req w =
     (case ticket_New (rpc_Config req) of
        Inl err \<Rightarrow>
          (\<lparr>round_provider = None, round_response = rpc_Error (Error_text js err),
            round_call = None\<rparr>, w)
      | Inr p \<Rightarrow> ticket_step gh js (Some p) req w)"
    unfolding ticket_step_def by (rule rpc_step_uninitialized)
  have t2: "ticket_step gh js (Some tp) req w =
     (case ticket_dispatch gh js tp req w of
        (response, invoked, w') \<Rightarrow>
          (\<lparr>round_provider = Some tp, round_response = response, round_call = invoked\<rparr>, w'))"
    unfolding ticket_step_def by (rule rpc_step_ready)
  have t3: "map round_provider (fst (ticket_loop gh js None (map Request reqs) w)) =
       map (\<lambda>n. adapter_after ticket_New (take (Suc n) reqs)) [0..<length reqs]"
    unfolding ticket_loop_def by (simp add: rpc_loop_providers)
  have t4: "ticket_main gh js [prog] inputs w =
     (case ticket_loop gh js None inputs w of
        (rounds, w') \<Rightarrow> (map (\<lambda>r. Encode (round_response r)) rounds, w'))"
    by (simp add: ticket_main_def ticket_loop_def rpc_main_def)
  have d1: "deployment_step gh js None req w =
     (case deployment_New (rpc_Config req) of
        Inl err \<Rightarrow>
          (\<lparr>round_provider = None, round_response = rpc_Error (Error_text js err),
            round_call = None\<rparr>, w)
      | Inr p \<Rightarrow> deployment_step gh js (Some p) req w)"
    unfolding deployment_step_def by (rule rpc_step_uninitialized)
  have d2: "deployment_step gh js (Some dp) req w =
     (case deployment_dispatch gh js dp req w of
        (response, invoked, w') \<Rightarrow>
          (\<lparr>round_provider = Some dp, round_response = response, round_call = invoked\<rparr>, w'))"
    unfolding deployment_step_def by (rule rpc_step_ready)
  have d3: "map round_provider (fst (deployment_loop gh js None (map Request reqs) w)) =
       map (\<lambda>n. adapter_after deployment_New (take (Suc n) reqs)) [0..<length reqs]"
    unfolding deployment_loop_def by (simp add: rpc_loop_providers)
  have d4: "deployment_main gh js [prog] inputs w =
     (case deployment_loop gh js None inputs w of
        (rounds, w') \<Rightarrow> (map (\<lambda>r. Encode (round_response r)) rounds, w'))"
    by (simp add: deployment_main_def deployment_loop_def rpc_main_def)
  show ?thesis
    by (intro conjI t1 t2 t3 t4 d1 d2 d3 d4)
qed

lemma ticket_New_example:
  "ticket_New (example_config token) =
     Inr \<lparr>ticket_client = NewTokenClient token,
          ticket_config = \<lparr>ticket_Token = token, ticket_Owner = ''o'', ticket_Repo = ''r'',
            ticket_DefaultState = ''open''\<rparr>\<rparr>"
  by (simp add: ticket_New_def example_config_def)

lemma ticket_New_empty: "ticket_New Map.empty = Inl (Errorf ''token is required'')"
  by (simp add: ticket_New_def)

lemma ticket_loop_example:
  "map round_provider
     (fst (ticket_loop example_gh example_js None
        [Request (example_request ''ticket.get'' Map.empty),
         Request (example_request ''ticket.get'' (example_config ''a'')),
         Request (example_request ''ticket.get'' (example_config ''b''))] 0)) =
   [None, Some (projr (ticket_New (example_config ''a''))),
    Some (projr (ticket_New (example_config ''a'')))]"
  by (simp add: ticket_loop_def rpc_step_def example_request_def ticket_New_example
      ticket_New_empty case_prod_beta)

lemma ticket_dispatch_unknown:
  assumes "rpc_Method req \<notin> {''ticket.query'', ''ticket.get'', ''ticket.create'', ''ticket.update''}"
  shows "ticket_dispatch gh js p req w =
           (rpc_Error (''unknown method: '' @ rpc_Method req), None, w)"
  using assms by (simp add: ticket_dispatch_def)

lemma deployment_dispatch_unknown:
  assumes "rpc_Method req \<notin> {''deployment.query'', ''deployment.get''}"
  shows "deployment_dispatch gh js p req w =
           (rpc_Error (''unknown method: '' @ rpc_Method req), None, w)"
  using assms by (simp add: deployment_dispatch_def)

lemma handleRequest_unknown:
  assumes "Plugin_Method req \<notin> {''team.query'', ''team.get'', ''team.members''}"
  shows "handleRequest gh js p req w =
           (PluginFailure \<lparr>PluginError_Code = ''method_not_found'',
              PluginError_Message = ''Unknown method: '' @ Plugin_Method req\<rparr>, None, w)"
  using assms by (simp add: handleRequest_def)

lemma rpc_step_unknown:
  assumes "\<And>p. dispatch p req w = (rpc_Error (''unknown method: '' @ rpc_Method req), None, w)"
  shows "rpc_step new dispatch js st req w =
     (case (case st of None \<Rightarrow> new (rpc_Config req) | Some p \<Rightarrow> Inr p) of
        Inl err \<Rightarrow>
          (\<lparr>round_provider = None, round_response = rpc_Error (Error_text js err),
            round_call = None\<rparr>, w)
      | Inr p \<Rightarrow>
          (\<lparr>round_provider = Some p,
            round_response = rpc_Error (''unknown method: '' @ rpc_Method req),
            round_call = None\<rparr>, w))"
  by (simp add: rpc_step_def assms split: sum.split)

lemma rpc_loop_Request:
  "rpc_loop new dispatch js st (Request req # rest) w =
     (fst (rpc_step new dispatch js st req w) #
        fst (rpc_loop new dispatch js (round_provider (fst (rpc_step new dispatch js st req w)))
               rest (snd (rpc_step new dispatch js st req w))),
      snd (rpc_loop new dispatch js (round_provider (fst (rpc_step new dispatch js st req w)))
               rest (snd (rpc_step new dispatch js st req w))))"
  by (simp add: case_prod_beta)

text \<open>
  Claim C7, as the code has it. A request whose method is not in the table of its bridge
  and that reaches the switch is answered with the unknown-method error: in the team
  bridge always, in the ticket and the deployment bridge when an adapter is held or the
  configuration of the request validates. A ticket or deployment bridge without an
  adapter answers a request whose configuration does not validate with the validation
  error, whatever the method. In every case no operation of the adapter is called, the
  upstream state is left as it was, and the loop goes on with the rest of the input.
\<close>

theorem unknown_method:
  assumes "rpc_Method req \<notin> {''ticket.query'', ''ticket.get'', ''ticket.create'', ''ticket.update''}"
    and "rpc_Method dreq \<notin> {''deployment.query'', ''deployment.get''}"
    and "Plugin_Method treq \<notin> {''team.query'', ''team.get'', ''team.members''}"
  shows "ticket_step gh js st req w =
     (case (case st of None \<Rightarrow> ticket_New (rpc_Config req) | Some p \<Rightarrow> Inr p) of
        Inl err \<Rightarrow>
          (\<lparr>round_provider = None, round_response = rpc_Error (Error_text js err),
            round_call = None\<rparr>, w)
      | Inr p \<Rightarrow>
          (\<lparr>round_provider = Some p,
            round_response = rpc_Error (''unknown method: '' @ rpc_Method req),
            round_call = None\<rparr>, w))
   \<and> ticket_loop gh js st (Request req # rest) w =
     (fst (ticket_step gh js st req w) #
        fst (ticket_loop gh js (round_provider (fst (ticket_step gh js st req w))) rest w),
      snd (ticket_loop gh js (round_provider (fst (ticket_step gh js st req w))) rest w))
   \<and> deployment_step gh js dst dreq w =
     (case (case dst of None \<Rightarrow> deployment_New (rpc_Config dreq) | Some p \<Rightarrow> Inr p) of
        Inl err \<Rightarrow>
          (\<lparr>round_provider = None, round_response = rpc_Error (Error_text js err),
            round_call = None\<rparr>, w)
      | Inr p \<Rightarrow>
          (\<lparr>round_provider = Some p,
            round_response = rpc_Error (''unknown method: '' @ rpc_Method dreq),
            round_call = None\<rparr>, w))
   \<and> deployment_loop gh js dst (Request dreq # rest) w =
     (fst (deployment_step gh js dst dreq w) #
        fst (deployment_loop gh js (round_provider (fst (deployment_step gh js dst dreq w))) rest w),
      snd (deployment_loop gh js (round_provider (fst (deployment_step gh js dst dreq w))) rest w))
   \<and> handleRequest gh js tp treq w =
     (PluginFailure \<lparr>PluginError_Code = ''method_not_found'',
        PluginError_Message = ''Unknown method: '' @ Plugin_Method treq\<rparr>, None, w)
   \<and> team_loop gh js tp (Request treq # trest) w =
     (\<lparr>round_provider = Some tp,
       round_response = PluginFailure \<lparr>PluginError_Code = ''method_not_found'',
         PluginError_Message = ''Unknown method: '' @ Plugin_Method treq\<rparr>,
       round_call = None\<rparr> # fst (team_loop gh js tp trest w),
      snd (team_loop gh js tp trest w))"
proof -
  have t1: "ticket_step gh js st req w =
     (case (case st of None \<Rightarrow> ticket_New (rpc_Config req) | Some p \<Rightarrow> Inr p) of
        Inl err \<Rightarrow>
          (\<lparr>round_provider = None, round_response = rpc_Error (Error_text js err),
            round_call = None\<rparr>, w)
      | Inr p \<Rightarrow>
          (\<lparr>round_provider = Some p,
            round_response = rpc_Error (''unknown method: '' @ rpc_Method req),
            round_call = None\<rparr>, w))"
    unfolding ticket_step_def
    by (rule rpc_step_unknown) (rule ticket_dispatch_unknown [OF assms(1)])
  have t0: "snd (ticket_step gh js st req w) = w"
    unfolding t1 by (simp split: sum.split option.split)
  have t2: "ticket_loop gh js st (Request req # rest) w =
     (fst (ticket_step gh js st req w) #
        fst (ticket_loop gh js (round_provider (fst (ticket_step gh js st req w))) rest w),
      snd (ticket_loop gh js (round_provider (fst (ticket_step gh js st req w))) rest w))"
    using t0 unfolding ticket_loop_def ticket_step_def rpc_loop_Request by simp
  have d1: "deployment_step gh js dst dreq w =
     (case (case dst of None \<Rightarrow> deployment_New (rpc_Config dreq) | Some p \<Rightarrow> Inr p) of
        Inl err \<Rightarrow>
          (\<lparr>round_provider = None, round_response = rpc_Error (Error_text js err),
            round_call = None\<rparr>, w)
      | Inr p \<Rightarrow>
          (\<lparr>round_provider = Some p,
            round_response = rpc_Error (''unknown method: '' @ rpc_Method dreq),
            round_call = None\<rparr>, w))"
    unfolding deployment_step_def
    by (rule rpc_step_unknown) (rule deployment_dispatch_unknown [OF assms(2)])
  have d0: "snd (deployment_step gh js dst dreq w) = w"
    unfolding d1 by (simp split: sum.split option.split)
  have d2: "deployment_loop gh js dst (Request dreq # rest) w =
     (fst (deployment_step gh js dst dreq w) #
        fst (deployment_loop gh js (round_provider (fst (deployment_step gh js dst dreq w))) rest w),
      snd (deployment_loop gh js (round_provider (fst (deployment_step gh js dst dreq w))) rest w))"
    using d0 unfolding deployment_loop_def deployment_step_def rpc_loop_Request by simp
  have m1: "handleRequest gh js tp treq w =
     (PluginFailure \<lparr>PluginError_Code = ''method_not_found'',
        PluginError_Message = ''Unknown method: '' @ Plugin_Method treq\<rparr>, None, w)"
    by (rule handleRequest_unknown [OF assms(3)])
  have m2: "team_loop gh js tp (Request treq # trest) w =
     (\<lparr>round_provider = Some tp,
       round_response = PluginFailure \<lparr>PluginError_Code = ''method_not_found'',
         PluginError_Message = ''Unknown method: '' @ Plugin_Method treq\<rparr>,
       round_call = None\<rparr> # fst (team_loop gh js tp trest w),
      snd (team_loop gh js tp trest w))"
    by (simp add: m1 case_prod_beta)
  show ?thesis
    by (intro conjI t1 t2 d1 d2 m1 m2)
qed

theorem unknown_method_witness:
  "rpc_Method (example_request ''ticket.delete'' Map.empty)
     \<notin> {''ticket.query'', ''ticket.get'', ''ticket.create'', ''ticket.update''}
   \<and> rpc_Method (example_request ''deployment.rollback'' Map.empty)
     \<notin> {''deployment.query'', ''deployment.get''}
   \<and> Plugin_Method (example_plugin_request ''team.delete'')
     \<notin> {''team.query'', ''team.get'', ''team.members''}
   \<and> ticket_step example_gh example_js (Some example_ticket_provider)
        (example_request ''ticket.delete'' Map.empty) 0 =
       (\<lparr>round_provider = Some example_ticket_provider,
         round_response = rpc_Error ''unknown method: ticket.delete'', round_call = None\<rparr>, 0)
   \<and> deployment_step example_gh example_js (Some example_deployment_provider)
        (example_request ''deployment.rollback'' Map.empty) 0 =
       (\<lparr>round_provider = Some example_deployment_provider,
         round_response = rpc_Error ''unknown method: deployment.rollback'', round_call = None\<rparr>, 0)
   \<and> handleRequest example_gh example_js example_team_provider
        (example_plugin_request ''team.delete'') 0 =
       (PluginFailure \<lparr>PluginError_Code = ''method_not_found'',
          PluginError_Message = ''Unknown method: team.delete''\<rparr>, None, 0)"
proof -
  have h1: "rpc_Method (example_request ''ticket.delete'' Map.empty)
     \<notin> {''ticket.query'', ''ticket.get'', ''ticket.create'', ''ticket.update''}"
    by (simp add: example_request_def)
  have h2: "rpc_Method (example_request ''deployment.rollback'' Map.empty)
     \<notin> {''deployment.query'', ''deployment.get''}"
    by (simp add: example_request_def)
  have h3: "Plugin_Method (example_plugin_request ''team.delete'')
     \<notin> {''team.query'', ''team.get'', ''team.members''}"
    by (simp add: example_plugin_request_def)
  note u = unknown_method [OF h1 h2 h3, of example_gh example_js "Some example_ticket_provider" 0
      "[]" "Some example_deployment_provider" example_team_provider "[]"]
  have m1: "rpc_Method (example_request ''ticket.delete'' Map.empty) = ''ticket.delete''"
    "rpc_Method (example_request ''deployment.rollback'' Map.empty) = ''deployment.rollback''"
    by (simp_all add: example_request_def)
  have m2: "Plugin_Method (example_plugin_request ''team.delete'') = ''team.delete''"
    by (simp add: example_plugin_request_def)
  have a: "ticket_step example_gh example_js (Some example_ticket_provider)
        (example_request ''ticket.delete'' Map.empty) 0 =
       (\<lparr>round_provider = Some example_ticket_provider,
         round_response = rpc_Error ''unknown method: ticket.delete'', round_call = None\<rparr>, 0)"
    using u [THEN conjunct1] by (simp add: m1)
  have b: "deployment_step example_gh example_js (Some example_deployment_provider)
        (example_request ''deployment.rollback'' Map.empty) 0 =
       (\<lparr>round_provider = Some example_deployment_provider,
         round_response = rpc_Error ''unknown method: deployment.rollback'', round_call = None\<rparr>, 0)"
    using u [THEN conjunct2, THEN conjunct2, THEN conjunct1] by (simp add: m1)
  have c: "handleRequest example_gh example_js example_team_provider
        (example_plugin_request ''team.delete'') 0 =
       (PluginFailure \<lparr>PluginError_Code = ''method_not_found'',
          PluginError_Message = ''Unknown method: team.delete''\<rparr>, None, 0)"
    using u [THEN conjunct2, THEN conjunct2, THEN conjunct2, THEN conjunct2, THEN conjunct1]
    by (simp add: m2)
  show ?thesis
    by (intro conjI h1 h2 h3 a b c)
qed

text \<open>The first request of a ticket bridge, with an unknown method and an empty
  configuration, is answered with the validation error.\<close>

theorem unknown_method_counterexample:
  "rpc_Method (example_request ''ticket.delete'' Map.empty)
     \<notin> {''ticket.query'', ''ticket.get'', ''ticket.create'', ''ticket.update''}
   \<and> ticket_step example_gh example_js None (example_request ''ticket.delete'' Map.empty) 0 =
       (\<lparr>round_provider = None, round_response = rpc_Error ''token is required'',
         round_call = None\<rparr>, 0)
   \<and> round_response
        (fst (ticket_step example_gh example_js None (example_request ''ticket.delete'' Map.empty) 0))
       \<noteq> rpc_Error (''unknown method: '' @ rpc_Method (example_request ''ticket.delete'' Map.empty))"
  by (simp add: ticket_step_def rpc_step_def example_request_def ticket_New_def Error_text_def)

end
